theory Spec2Isabelle
  imports Main "HOL-Library.Word"
begin

unbundle bit_operations_syntax

section \<open>Return codes\<close>

text \<open>
  Every kernel operation returns an \<open>int\<close>: zero for success, an \<open>errno\<close> macro of
  \<open>cerrno\<close> otherwise. The numeric values belong to the C library, not to the repository;
  the model keeps the macros symbolic. All that the code relies on is that they are pairwise
  different and different from zero. \<open>EBUSY\<close> is the code that the mutex test expects.
\<close>

datatype errno = EINVAL | EAGAIN | ETIMEDOUT | EDEADLK | EPERM | EOVERFLOW | EINTR | EBUSY

datatype ret = OK | Error errno

section \<open>Data model\<close>

text \<open>
  Objects that the C++ code reaches through references and pointers live in stores of the
  kernel state and are named by their address: \<open>tid\<close> for a \<open>ThreadControlBlock\<close>,
  \<open>sid\<close> for a \<open>Semaphore\<close>. C++ member names end in an underscore, which is not a legal
  name here; the fields drop it (\<open>value_\<close> is \<open>semValue\<close>, since \<open>value\<close> is reserved).
\<close>

type_synonym tid = nat
type_synonym sid = nat

text \<open>\<open>Semaphore::Value\<close> is \<open>unsigned int\<close> (32 bits on the target).\<close>
type_synonym Value = "32 word"

text \<open>\<open>TickClock::rep\<close> is \<open>uint64_t\<close>; durations and time points count ticks.\<close>
type_synonym duration = "64 word"
type_synonym time_point = "64 word"

text \<open>\<open>SignalSet\<close> wraps a \<open>std::bitset<32>\<close>; bit \<open>n\<close> is signal number \<open>n\<close>.\<close>
type_synonym SignalSet = "32 word"

text \<open>\<open>ThreadControlBlock::State\<close> and \<open>ThreadControlBlock::UnblockReason\<close>.\<close>

datatype state =
    New | Runnable | Sleeping | BlockedOnSemaphore | Suspended | Terminated
  | BlockedOnMutex | BlockedOnConditionVariable | WaitingForSignal

datatype UnblockReason = UnblockRequest | Timeout

text \<open>
  The thread lists that the modelled code blocks on: the \<open>blockedList_\<close> member of a
  semaphore, and the local \<open>waitingList\<close> in the \<open>waitImplementation\<close> frame of a thread.
\<close>

datatype listRef = SemaphoreBlockedList sid | SignalsWaitingList tid

text \<open>
  \<open>UnblockFunctor\<close> is type-erased; the only functor of the sources is
  \<open>SignalsWaitUnblockFunctor\<close>, which holds a reference to the local variable
  \<open>pendingSignalSet\<close> of the \<open>waitImplementation\<close> frame of the given thread.
\<close>

datatype UnblockFunctor = SignalsWaitUnblockFunctor tid

text \<open>
  The anonymous union of \<open>ThreadControlBlock\<close>: the functor pointer while the thread is
  blocked (\<open>None\<close> is \<open>nullptr\<close>), the reason of the last unblocking otherwise.
\<close>

datatype unblockInfo = Functor "UnblockFunctor option" | Reason UnblockReason

text \<open>
  The members of \<open>ThreadControlBlock\<close> that the modelled operations read or write.
  \<open>tcbList\<close> is \<open>list_\<close>, restricted to the blocked lists (\<open>None\<close>: on no blocked list);
  \<open>waitingSignalSet\<close> is the pointer \<open>waitingSignalSet_\<close> to the caller's constant mask,
  \<open>None\<close> for \<open>nullptr\<close>. The priorities are \<open>uint8_t\<close>: 0 is the lowest, and a boosted
  priority of 0 means no boosting.
\<close>

record threadControlBlock =
  tcbList :: "listRef option"
  unblockInfo :: unblockInfo
  pendingSignalSet :: SignalSet
  waitingSignalSet :: "SignalSet option"
  priority :: "8 word"
  boostedPriority :: "8 word"
  tcbState :: state

record semaphore =
  blockedList :: "tid list"
  semValue :: Value
  maxValue :: Value

text \<open>
  The locals of a \<open>waitImplementation\<close> call that the scheduler reaches by reference while
  the caller is blocked.
\<close>

record waitFrame =
  framePendingSignalSet :: SignalSet
  frameWaitingList :: "tid list"

text \<open>\<open>ThreadBase\<close>: the thread's control block and its join semaphore.\<close>

record threadBase =
  threadControlBlock :: tid
  joinSemaphore :: sid

text \<open>
  The mutex of the spec's data model, as far as \<open>tryLock\<close> reads and writes it: the
  optional owner, the recursion flag and the recursion counter. The \<open>Mutex\<close> class is not
  part of the sources.
\<close>

type_synonym mid = nat

record mutex =
  mutexOwner :: "tid option"
  mutexRecursive :: bool
  recursionCounter :: nat

text \<open>
  \<open>FifoQueue<T>\<close> wraps a \<open>synchronization::FifoQueueBase\<close>, which is not part of the
  sources: two semaphores, one counting the elements that can be popped and one the free
  slots that can be pushed to, and the storage, here the elements from the oldest to the
  newest. The element type \<open>T\<close> is \<open>nat\<close>.
\<close>

type_synonym qid = nat

record fifoQueueBase =
  popSemaphore :: sid
  pushSemaphore :: sid
  storage :: "nat list"

text \<open>
  The kernel state: the tick counter behind \<open>TickClock::now()\<close>, the scheduler's current
  thread, the object stores, and the timed waits enrolled with the tick facility
  (thread and deadline).
\<close>

record kernel =
  tickCount :: time_point
  currentThreadControlBlock :: tid
  threadControlBlocks :: "tid \<Rightarrow> threadControlBlock"
  semaphores :: "sid \<Rightarrow> semaphore"
  waitFrames :: "tid \<Rightarrow> waitFrame"
  timers :: "(tid \<times> time_point) list"
  mutexes :: "mid \<Rightarrow> mutex"
  fifoQueues :: "qid \<Rightarrow> fifoQueueBase"

definition updateThreadControlBlock ::
  "tid \<Rightarrow> (threadControlBlock \<Rightarrow> threadControlBlock) \<Rightarrow> kernel \<Rightarrow> kernel" where
  "updateThreadControlBlock t f k =
     k\<lparr>threadControlBlocks := (threadControlBlocks k)(t := f (threadControlBlocks k t))\<rparr>"

definition updateSemaphore :: "sid \<Rightarrow> (semaphore \<Rightarrow> semaphore) \<Rightarrow> kernel \<Rightarrow> kernel" where
  "updateSemaphore s f k = k\<lparr>semaphores := (semaphores k)(s := f (semaphores k s))\<rparr>"

definition updateWaitFrame :: "tid \<Rightarrow> (waitFrame \<Rightarrow> waitFrame) \<Rightarrow> kernel \<Rightarrow> kernel" where
  "updateWaitFrame t f k = k\<lparr>waitFrames := (waitFrames k)(t := f (waitFrames k t))\<rparr>"

definition updateMutex :: "mid \<Rightarrow> (mutex \<Rightarrow> mutex) \<Rightarrow> kernel \<Rightarrow> kernel" where
  "updateMutex m f k = k\<lparr>mutexes := (mutexes k)(m := f (mutexes k m))\<rparr>"

definition updateFifoQueue :: "qid \<Rightarrow> (fifoQueueBase \<Rightarrow> fifoQueueBase) \<Rightarrow> kernel \<Rightarrow> kernel" where
  "updateFifoQueue q f k = k\<lparr>fifoQueues := (fifoQueues k)(q := f (fifoQueues k q))\<rparr>"

fun getList :: "listRef \<Rightarrow> kernel \<Rightarrow> tid list" where
  "getList (SemaphoreBlockedList s) k = blockedList (semaphores k s)"
| "getList (SignalsWaitingList t) k = frameWaitingList (waitFrames k t)"

fun setList :: "listRef \<Rightarrow> tid list \<Rightarrow> kernel \<Rightarrow> kernel" where
  "setList (SemaphoreBlockedList s) ts k = updateSemaphore s (\<lambda>sem. sem\<lparr>blockedList := ts\<rparr>) k"
| "setList (SignalsWaitingList t) ts k = updateWaitFrame t (\<lambda>f. f\<lparr>frameWaitingList := ts\<rparr>) k"

text \<open>The state tag that each list is constructed with.\<close>

fun listState :: "listRef \<Rightarrow> state" where
  "listState (SemaphoreBlockedList s) = BlockedOnSemaphore"
| "listState (SignalsWaitingList t) = WaitingForSignal"

section \<open>Tick clock, thread control block and scheduler\<close>

text \<open>
  Modelled from the spec: \<open>TickClock::now()\<close> is declared in \<open>TickClock.hpp\<close>, its body is
  not part of the sources. It reads the monotonic tick counter.
\<close>

definition TickClock_now :: "kernel \<Rightarrow> time_point" where
  "TickClock_now k = tickCount k"

text \<open>
  Modelled from the spec: \<open>ThreadControlBlock::getPendingSignalSet\<close> is declared in
  \<open>ThreadControlBlock.hpp\<close> (it returns the set of currently pending signals), its body is
  missing.
\<close>

definition getPendingSignalSet :: "threadControlBlock \<Rightarrow> SignalSet" where
  "getPendingSignalSet tcb = pendingSignalSet tcb"

text \<open>\<open>ThreadControlBlock::getEffectivePriority\<close>, and the same for a thread of the store.\<close>

definition getEffectivePriority :: "threadControlBlock \<Rightarrow> 8 word" where
  "getEffectivePriority tcb = max (priority tcb) (boostedPriority tcb)"

definition effectivePriority :: "kernel \<Rightarrow> tid \<Rightarrow> 8 word" where
  "effectivePriority k t = getEffectivePriority (threadControlBlocks k t)"

text \<open>\<open>ThreadControlBlock::setWaitingSignalSet\<close> and \<open>ThreadControlBlock::blockHook\<close>.\<close>

definition setWaitingSignalSet :: "SignalSet option \<Rightarrow> threadControlBlock \<Rightarrow> threadControlBlock" where
  "setWaitingSignalSet signalSet tcb = tcb\<lparr>waitingSignalSet := signalSet\<rparr>"

definition blockHook :: "UnblockFunctor option \<Rightarrow> threadControlBlock \<Rightarrow> threadControlBlock" where
  "blockHook unblockFunctor tcb = tcb\<lparr>unblockInfo := Functor unblockFunctor\<rparr>"

text \<open>
  Modelled from the spec: \<open>ThreadControlBlock::acceptPendingSignal\<close> is declared in
  \<open>ThreadControlBlock.hpp\<close>, its body is missing. The spec: clear bit \<open>n\<close>; \<open>EINVAL\<close> if
  \<open>n\<close> is out of range or the bit is clear. The argument is a \<open>uint8_t\<close>.
\<close>

definition acceptPendingSignal :: "8 word \<Rightarrow> threadControlBlock \<Rightarrow> ret \<times> threadControlBlock" where
  "acceptPendingSignal signalNumber tcb =
     (if \<not> unat signalNumber < 32 \<or> \<not> bit (pendingSignalSet tcb) (unat signalNumber)
      then (Error EINVAL, tcb)
      else (OK, tcb\<lparr>pendingSignalSet := unset_bit (unat signalNumber) (pendingSignalSet tcb)\<rparr>))"

text \<open>
  \<open>SignalsWaitUnblockFunctor::operator()\<close>: saves the pending signal set of the unblocked
  thread \<open>t\<close> into the referenced variable (the frame of thread \<open>r\<close>) and clears the pointer to
  the set of signals that were waited for.
\<close>

definition SignalsWaitUnblockFunctor_call :: "tid \<Rightarrow> tid \<Rightarrow> kernel \<Rightarrow> kernel" where
  "SignalsWaitUnblockFunctor_call r t k =
     updateThreadControlBlock t (setWaitingSignalSet None)
       (updateWaitFrame r
          (\<lambda>f. f\<lparr>framePendingSignalSet := getPendingSignalSet (threadControlBlocks k t)\<rparr>) k)"

fun callUnblockFunctor :: "UnblockFunctor \<Rightarrow> tid \<Rightarrow> kernel \<Rightarrow> kernel" where
  "callUnblockFunctor (SignalsWaitUnblockFunctor r) t k = SignalsWaitUnblockFunctor_call r t k"

text \<open>
  Modelled from the spec: \<open>ThreadControlBlock::unblockHook\<close> is declared in
  \<open>ThreadControlBlock.hpp\<close> (it sets the unblock reason and executes the unblock functor
  saved in \<open>blockHook\<close>), its body is missing. The round-robin quantum is not modelled.
\<close>

definition unblockHook :: "tid \<Rightarrow> UnblockReason \<Rightarrow> kernel \<Rightarrow> kernel" where
  "unblockHook t unblockReason k =
     (let k' = (case unblockInfo (threadControlBlocks k t) of
                  Functor (Some f) \<Rightarrow> callUnblockFunctor f t k
                | _ \<Rightarrow> k)
      in updateThreadControlBlock t (\<lambda>tcb. tcb\<lparr>unblockInfo := Reason unblockReason\<rparr>) k')"

text \<open>
  Modelled from the spec: the \<open>Scheduler\<close> class is not part of the sources. The spec:
  \<open>unblock(iterator, reason)\<close> removes the thread from its current blocked list, invokes the
  stored unblock functor, and makes the thread runnable. A wake-up wins over a later
  timeout, so the thread's enrolment with the tick facility ends here. The ready list, its
  priority order and the context switch are outside this model: no theorem below depends
  on which runnable thread runs. A thread that is on no blocked list is left as it is.
\<close>

definition unblock :: "tid \<Rightarrow> UnblockReason \<Rightarrow> kernel \<Rightarrow> kernel" where
  "unblock t unblockReason k =
     (case tcbList (threadControlBlocks k t) of
        None \<Rightarrow> k
      | Some container \<Rightarrow>
          (let k1 = setList container (remove1 t (getList container k)) k;
               k2 = unblockHook t unblockReason k1;
               k3 = updateThreadControlBlock t (\<lambda>tcb. tcb\<lparr>tcbState := Runnable, tcbList := None\<rparr>) k2
           in k3\<lparr>timers := filter (\<lambda>(t', deadline). t' \<noteq> t) (timers k3)\<rparr>))"

text \<open>
  Modelled from the spec: the insertion into a thread list, which is not part of the
  sources. The spec: blocked lists are priority-ordered containers, ordered by effective
  priority and then by insertion order within each priority band. A thread is put behind
  every thread of its own or a higher effective priority (\<open>p\<close>), before the first one of a
  lower priority.
\<close>

fun sortedInsert :: "(tid \<Rightarrow> 8 word) \<Rightarrow> tid \<Rightarrow> tid list \<Rightarrow> tid list" where
  "sortedInsert p t [] = [t]"
| "sortedInsert p t (u # us) = (if p u < p t then t # u # us else u # sortedInsert p t us)"

text \<open>
  Modelled from the spec: the part of \<open>block\<close> that runs before the context switch. It
  puts the current thread on the list, at the tail of its priority band, sets its state
  from the list's tag and stores the unblock functor.
\<close>

definition blockInternal :: "listRef \<Rightarrow> UnblockFunctor option \<Rightarrow> kernel \<Rightarrow> kernel" where
  "blockInternal container unblockFunctor k =
     (let t = currentThreadControlBlock k;
          k1 = setList container (sortedInsert (effectivePriority k) t (getList container k)) k
      in updateThreadControlBlock t
           (\<lambda>tcb. blockHook unblockFunctor (tcb\<lparr>tcbState := listState container, tcbList := Some container\<rparr>))
           k1)"

text \<open>
  Modelled from the spec: the error that a resumed \<open>block\<close> or \<open>blockUntil\<close> returns
  for the stored unblock reason: 0 for an unblock request, \<open>ETIMEDOUT\<close> for a timeout.
\<close>

fun unblockReasonError :: "UnblockReason \<Rightarrow> ret" where
  "unblockReasonError UnblockRequest = OK"
| "unblockReasonError Timeout = Error ETIMEDOUT"

text \<open>
  Modelled from the spec: \<open>Scheduler::block\<close>. The caller is suspended by \<open>blockInternal\<close>;
  \<open>env\<close> is everything that the other threads and the interrupt handlers do until the
  caller runs again. The call returns only if the caller has been unblocked by then
  (\<open>None\<close>: it is still blocked), with the error of the stored unblock reason.
\<close>

definition block ::
  "(kernel \<Rightarrow> kernel) \<Rightarrow> listRef \<Rightarrow> UnblockFunctor option \<Rightarrow> kernel \<Rightarrow> (ret \<times> kernel) option" where
  "block env container unblockFunctor k =
     (let t = currentThreadControlBlock k;
          k' = env (blockInternal container unblockFunctor k)
      in case unblockInfo (threadControlBlocks k' t) of
           Functor f \<Rightarrow> None
         | Reason unblockReason \<Rightarrow>
             Some (unblockReasonError unblockReason, k'\<lparr>currentThreadControlBlock := t\<rparr>))"

text \<open>
  Modelled from the spec: \<open>Scheduler::blockUntil\<close>. Like \<open>block\<close>, but the caller is also
  enrolled with the tick facility. A deadline that has passed (the spec's
  \<open>tryWaitUntil(now() - 1)\<close>) gives \<open>ETIMEDOUT\<close> immediately.
\<close>

definition blockUntil ::
  "(kernel \<Rightarrow> kernel) \<Rightarrow> listRef \<Rightarrow> time_point \<Rightarrow> UnblockFunctor option \<Rightarrow> kernel
     \<Rightarrow> (ret \<times> kernel) option" where
  "blockUntil env container timePoint unblockFunctor k =
     (if timePoint < TickClock_now k then Some (Error ETIMEDOUT, k)
      else block env container unblockFunctor
             (k\<lparr>timers := timers k @ [(currentThreadControlBlock k, timePoint)]\<rparr>))"

text \<open>
  Modelled from the spec: the first two steps of \<open>tickHook\<close>. It advances the tick counter
  and expires the timed waits whose deadline equals the new time, unblocking each with
  reason \<open>Timeout\<close>.
\<close>

definition tickHook :: "kernel \<Rightarrow> kernel" where
  "tickHook k =
     (let now = tickCount k + 1;
          k1 = k\<lparr>tickCount := now\<rparr>
      in fold (\<lambda>(t, deadline) k'. if deadline = now then unblock t Timeout k' else k')
           (timers k1) k1)"

text \<open>
  Modelled from the spec: \<open>ThreadControlBlock::generateSignal\<close> is declared in
  \<open>ThreadControlBlock.hpp\<close>, its body is missing. The spec: \<open>EINVAL\<close> unless \<open>n \<le> 31\<close>;
  set bit \<open>n\<close> of the pending set; unblock the target if it waits for a signal and its
  waited-for mask meets the pending set.
\<close>

definition generateSignal :: "tid \<Rightarrow> 8 word \<Rightarrow> kernel \<Rightarrow> ret \<times> kernel" where
  "generateSignal t signalNumber k =
     (if \<not> unat signalNumber < 32 then (Error EINVAL, k)
      else
        (let k1 = updateThreadControlBlock t
                    (\<lambda>tcb. tcb\<lparr>pendingSignalSet := set_bit (unat signalNumber) (pendingSignalSet tcb)\<rparr>) k;
             tcb = threadControlBlocks k1 t
         in case waitingSignalSet tcb of
              None \<Rightarrow> (OK, k1)
            | Some signalSet \<Rightarrow>
                if tcbState tcb = WaitingForSignal \<and> signalSet AND pendingSignalSet tcb \<noteq> 0
                then (OK, unblock t UnblockRequest k1)
                else (OK, k1)))"

section \<open>Semaphore\<close>

text \<open>
  \<open>post\<close>, \<open>tryWait\<close>, \<open>tryWaitUntil\<close> and \<open>wait\<close> hold an \<open>InterruptMaskingLock\<close> for
  their whole body, so each is one atomic step on the kernel state in which \<open>block\<close> and
  \<open>blockUntil\<close> are the only points where other code runs. \<open>tryWaitFor\<close> holds no lock
  while it reads the clock; the model reads the clock and enters \<open>tryWaitUntil\<close> in the
  same state, with no tick in between.
\<close>

text \<open>\<open>Semaphore::Semaphore(value, maxValue)\<close>\<close>

definition Semaphore :: "Value \<Rightarrow> Value \<Rightarrow> semaphore" where
  "Semaphore val maxVal =
     \<lparr>blockedList = [],
      semValue = (if val \<le> maxVal then val else maxVal),
      maxValue = maxVal\<rparr>"

text \<open>\<open>Semaphore::post\<close>\<close>

definition post :: "sid \<Rightarrow> kernel \<Rightarrow> ret \<times> kernel" where
  "post s k =
     (if semValue (semaphores k s) = maxValue (semaphores k s) then (Error EOVERFLOW, k)
      else if blockedList (semaphores k s) \<noteq> []
      then (OK, unblock (hd (blockedList (semaphores k s))) UnblockRequest k)
      else (OK, updateSemaphore s (\<lambda>sem. sem\<lparr>semValue := semValue sem + 1\<rparr>) k))"

text \<open>\<open>Semaphore::tryWaitInternal\<close>\<close>

definition tryWaitInternal :: "sid \<Rightarrow> kernel \<Rightarrow> ret \<times> kernel" where
  "tryWaitInternal s k =
     (if semValue (semaphores k s) = 0 then (Error EAGAIN, k)
      else (OK, updateSemaphore s (\<lambda>sem. sem\<lparr>semValue := semValue sem - 1\<rparr>) k))"

text \<open>\<open>Semaphore::tryWait\<close>\<close>

definition tryWait :: "sid \<Rightarrow> kernel \<Rightarrow> ret \<times> kernel" where
  "tryWait s k = tryWaitInternal s k"

text \<open>\<open>Semaphore::tryWaitUntil\<close>\<close>

definition tryWaitUntil ::
  "(kernel \<Rightarrow> kernel) \<Rightarrow> sid \<Rightarrow> time_point \<Rightarrow> kernel \<Rightarrow> (ret \<times> kernel) option" where
  "tryWaitUntil env s timePoint k =
     (case tryWaitInternal s k of
        (ret, k') \<Rightarrow>
          if ret \<noteq> Error EAGAIN then Some (ret, k')
          else blockUntil env (SemaphoreBlockedList s) timePoint None k')"

text \<open>\<open>Semaphore::tryWaitFor\<close>; the arithmetic is that of \<open>uint64_t\<close> ticks.\<close>

definition tryWaitFor ::
  "(kernel \<Rightarrow> kernel) \<Rightarrow> sid \<Rightarrow> duration \<Rightarrow> kernel \<Rightarrow> (ret \<times> kernel) option" where
  "tryWaitFor env s d k = tryWaitUntil env s (TickClock_now k + d + 1) k"

text \<open>\<open>Semaphore::wait\<close>\<close>

definition wait :: "(kernel \<Rightarrow> kernel) \<Rightarrow> sid \<Rightarrow> kernel \<Rightarrow> (ret \<times> kernel) option" where
  "wait env s k =
     (case tryWaitInternal s k of
        (ret, k') \<Rightarrow>
          if ret \<noteq> Error EAGAIN then Some (ret, k')
          else block env (SemaphoreBlockedList s) None k')"

section \<open>Signals of the current thread\<close>

text \<open>
  The GCC builtin \<open>__builtin_ffsl\<close> on the 32-bit \<open>unsigned long\<close> of the target: one plus
  the index of the least significant 1-bit of \<open>x\<close>, or zero if \<open>x\<close> is zero.
\<close>

definition ffsl :: "32 word \<Rightarrow> int" where
  "ffsl x = (case find (bit x) [0..<32] of None \<Rightarrow> 0 | Some n \<Rightarrow> int n + 1)"

text \<open>
  The last lines of \<open>waitImplementation\<close>, which both of its paths reach: find the first set
  bit of the intersection, accept that signal, return the pair. \<open>signalNumber\<close> is an \<open>int\<close>
  in the source and is converted to \<open>uint8_t\<close> for the call and for the result.
\<close>

definition waitImplementation_accept :: "32 word \<Rightarrow> kernel \<Rightarrow> (ret \<times> 8 word) \<times> kernel" where
  "waitImplementation_accept intersection k =
     (let t = currentThreadControlBlock k;
          intersectionValue = intersection;
          signalNumber = ffsl intersectionValue - 1;
          (ret, tcb) = acceptPendingSignal (word_of_int signalNumber) (threadControlBlocks k t)
      in ((ret, word_of_int signalNumber), updateThreadControlBlock t (\<lambda>old. tcb) k))"

text \<open>
  \<open>waitImplementation(signalSet, nonBlocking, timePoint)\<close>; \<open>timePoint\<close> is a pointer,
  \<open>None\<close> for \<open>nullptr\<close>. The locals \<open>pendingSignalSet\<close> and \<open>waitingList\<close> are written to
  the caller's frame before the thread blocks, because the unblock functor and the
  scheduler reach them by reference.
\<close>

definition waitImplementation ::
  "(kernel \<Rightarrow> kernel) \<Rightarrow> SignalSet \<Rightarrow> bool \<Rightarrow> time_point option \<Rightarrow> kernel
     \<Rightarrow> ((ret \<times> 8 word) \<times> kernel) option" where
  "waitImplementation env signalSet nonBlocking timePoint k =
     (let t = currentThreadControlBlock k;
          bitset = signalSet;
          pending = getPendingSignalSet (threadControlBlocks k t);
          intersection = bitset AND pending
      in if intersection = 0 then
           (if nonBlocking then Some ((Error EAGAIN, 0), k)
            else
              (let waitingList = SignalsWaitingList t;
                   k1 = updateWaitFrame t
                          (\<lambda>old. \<lparr>framePendingSignalSet = pending, frameWaitingList = []\<rparr>) k;
                   k2 = updateThreadControlBlock t (setWaitingSignalSet (Some signalSet)) k1;
                   signalsWaitUnblockFunctor = SignalsWaitUnblockFunctor t
               in case (case timePoint of
                          None \<Rightarrow> block env waitingList (Some signalsWaitUnblockFunctor) k2
                        | Some tp \<Rightarrow>
                            blockUntil env waitingList tp (Some signalsWaitUnblockFunctor) k2) of
                    None \<Rightarrow> None
                  | Some (ret, k3) \<Rightarrow>
                      if ret \<noteq> OK then Some ((ret, 0), k3)
                      else Some (waitImplementation_accept
                                   (bitset AND framePendingSignalSet (waitFrames k3 t)) k3)))
         else Some (waitImplementation_accept intersection k))"


definition Signals_getPendingSignalSet :: "kernel \<Rightarrow> SignalSet" where
  "Signals_getPendingSignalSet k =
     getPendingSignalSet (threadControlBlocks k (currentThreadControlBlock k))"

text \<open>\<open>ThisThread::Signals::tryWait\<close>, \<open>tryWaitUntil\<close>, \<open>tryWaitFor\<close> and \<open>wait\<close>\<close>

definition Signals_tryWait ::
  "(kernel \<Rightarrow> kernel) \<Rightarrow> SignalSet \<Rightarrow> kernel \<Rightarrow> ((ret \<times> 8 word) \<times> kernel) option" where
  "Signals_tryWait env signalSet k = waitImplementation env signalSet True None k"



definition Signals_wait ::
  "(kernel \<Rightarrow> kernel) \<Rightarrow> SignalSet \<Rightarrow> kernel \<Rightarrow> ((ret \<times> 8 word) \<times> kernel) option" where
  "Signals_wait env signalSet k = waitImplementation env signalSet False None k"

section \<open>ThreadBase\<close>

text \<open>
  The loop \<open>while ((ret = joinSemaphore_.wait()) == EINTR);\<close> of \<open>ThreadBase::join\<close>. It may
  run forever, and a \<open>wait\<close> may never return: both are the value \<open>None\<close>.
\<close>

partial_function (option) joinLoop ::
  "(kernel \<Rightarrow> kernel) \<Rightarrow> sid \<Rightarrow> kernel \<Rightarrow> (ret \<times> kernel) option" where
  "joinLoop env s k =
     Option.bind (wait env s k)
       (\<lambda>r. if fst r = Error EINTR then joinLoop env s (snd r) else Some r)"

text \<open>\<open>ThreadBase::join\<close>\<close>

definition join :: "(kernel \<Rightarrow> kernel) \<Rightarrow> threadBase \<Rightarrow> kernel \<Rightarrow> (ret \<times> kernel) option" where
  "join env tb k =
     (if threadControlBlock tb = currentThreadControlBlock k then Some (Error EDEADLK, k)
      else joinLoop env (joinSemaphore tb) k)"

text \<open>\<open>ThreadBase::terminationHook\<close>\<close>

definition terminationHook :: "threadBase \<Rightarrow> kernel \<Rightarrow> kernel" where
  "terminationHook tb k = snd (post (joinSemaphore tb) k)"



section \<open>FifoQueue\<close>

text \<open>
  The functors that tell a queue operation how to wait for its semaphore. Their classes
  are not part of the sources; each is named after the \<open>Semaphore\<close> function that it calls,
  and \<open>FifoQueue.hpp\<close> documents the error codes of each operation as those of that
  function.
\<close>

datatype SemaphoreFunctor =
    SemaphoreWaitFunctor
  | SemaphoreTryWaitFunctor
  | SemaphoreTryWaitForFunctor duration
  | SemaphoreTryWaitUntilFunctor time_point

fun callSemaphoreFunctor ::
  "(kernel \<Rightarrow> kernel) \<Rightarrow> SemaphoreFunctor \<Rightarrow> sid \<Rightarrow> kernel \<Rightarrow> (ret \<times> kernel) option" where
  "callSemaphoreFunctor env SemaphoreWaitFunctor s k = wait env s k"
| "callSemaphoreFunctor env SemaphoreTryWaitFunctor s k = Some (tryWait s k)"
| "callSemaphoreFunctor env (SemaphoreTryWaitForFunctor d) s k = tryWaitFor env s d k"
| "callSemaphoreFunctor env (SemaphoreTryWaitUntilFunctor timePoint) s k =
     tryWaitUntil env s timePoint k"

text \<open>
  Modelled from the spec: \<open>FifoQueueBase::push\<close> and \<open>FifoQueueBase::pop\<close> are not part of
  the sources. The queue is a wrapper over the semaphores and the storage functor: the
  operation waits for its semaphore with the given functor and returns the error if there
  is one; otherwise it runs the storage functor (here: appends the value, or takes the
  oldest one) and returns what \<open>post\<close> on the other semaphore returns, as \<open>FifoQueue.hpp\<close>
  documents. A \<open>pop\<close> that finds no element leaves \<open>value\<close> as it is; this cannot happen
  when the pop semaphore counts the elements.
\<close>

definition FifoQueueBase_push ::
  "(kernel \<Rightarrow> kernel) \<Rightarrow> SemaphoreFunctor \<Rightarrow> nat \<Rightarrow> qid \<Rightarrow> kernel \<Rightarrow> (ret \<times> kernel) option" where
  "FifoQueueBase_push env waitSemaphoreFunctor val q k =
     (case callSemaphoreFunctor env waitSemaphoreFunctor (pushSemaphore (fifoQueues k q)) k of
        None \<Rightarrow> None
      | Some (ret, k1) \<Rightarrow>
          if ret \<noteq> OK then Some (ret, k1)
          else Some (post (popSemaphore (fifoQueues k1 q))
                       (updateFifoQueue q (\<lambda>b. b\<lparr>storage := storage b @ [val]\<rparr>) k1)))"




definition pushInternal ::
  "(kernel \<Rightarrow> kernel) \<Rightarrow> SemaphoreFunctor \<Rightarrow> nat \<Rightarrow> qid \<Rightarrow> kernel \<Rightarrow> (ret \<times> kernel) option" where
  "pushInternal env waitSemaphoreFunctor val q k =
     FifoQueueBase_push env waitSemaphoreFunctor val q k"










definition FifoQueue_tryPush ::
  "(kernel \<Rightarrow> kernel) \<Rightarrow> nat \<Rightarrow> qid \<Rightarrow> kernel \<Rightarrow> (ret \<times> kernel) option" where
  "FifoQueue_tryPush env val q k = pushInternal env SemaphoreTryWaitFunctor val q k"



section \<open>Mutex and its test\<close>

text \<open>
  Modelled from the spec: \<open>Mutex::tryLock\<close> is not part of the sources; its test is. The
  spec's lock takes an unowned mutex (owner is the current thread, recursion incremented),
  locks a recursive mutex again for its owner, and is \<open>EDEADLK\<close> for the owner of a
  mutex that is not recursive. On a mutex owned by another thread a lock would block, and
  \<open>tryLock\<close> returns an error instead. The spec lists \<open>EAGAIN\<close> for a non-blocking
  operation that would block; the test in the sources requires \<open>EBUSY\<close> of \<open>tryLock\<close>, and
  the sources decide: the model returns \<open>EBUSY\<close>.
\<close>

definition Mutex_tryLock :: "mid \<Rightarrow> kernel \<Rightarrow> ret \<times> kernel" where
  "Mutex_tryLock m k =
     (case mutexOwner (mutexes k m) of
        None \<Rightarrow>
          (OK, updateMutex m
                 (\<lambda>x. x\<lparr>mutexOwner := Some (currentThreadControlBlock k),
                         recursionCounter := recursionCounter x + 1\<rparr>) k)
      | Some owner \<Rightarrow>
          if owner = currentThreadControlBlock k then
            (if mutexRecursive (mutexes k m)
             then (OK, updateMutex m (\<lambda>x. x\<lparr>recursionCounter := recursionCounter x + 1\<rparr>) k)
             else (Error EDEADLK, k))
          else (Error EBUSY, k))"


section \<open>Invariants and concrete states\<close>

text \<open>The semaphore invariant of the spec: \<open>value == 0\<close> or the blocked list is empty.\<close>

definition semaphoreInvariant :: "sid \<Rightarrow> kernel \<Rightarrow> bool" where
  "semaphoreInvariant s k = (semValue (semaphores k s) = 0 \<or> blockedList (semaphores k s) = [])"

text \<open>The bound that the constructor establishes: \<open>value <= maxValue\<close>, unsigned.\<close>

definition semaphoreBounded :: "sid \<Rightarrow> kernel \<Rightarrow> bool" where
  "semaphoreBounded s k = (semValue (semaphores k s) \<le> maxValue (semaphores k s))"

text \<open>
  A thread list in the order of the spec: from the highest effective priority to the
  lowest.
\<close>

definition sortedByPriority :: "kernel \<Rightarrow> tid list \<Rightarrow> bool" where
  "sortedByPriority k ts =
     sorted_wrt (\<lambda>a b. effectivePriority k b \<le> effectivePriority k a) ts"

text \<open>
  The single-list invariant of the spec for the blocked lists of the semaphores: no thread
  is twice on a list, every list is in priority order, and the list pointer of every
  thread on a list names that list.
\<close>

definition wellFormed :: "kernel \<Rightarrow> bool" where
  "wellFormed k =
     (\<forall>s. distinct (blockedList (semaphores k s)) \<and>
          sortedByPriority k (blockedList (semaphores k s)) \<and>
          (\<forall>t \<in> set (blockedList (semaphores k s)).
             tcbList (threadControlBlocks k t) = Some (SemaphoreBlockedList s)))"

text \<open>Signal \<open>n\<close> is the lowest-numbered signal of the set \<open>x\<close>.\<close>

definition lowestSignal :: "nat \<Rightarrow> SignalSet \<Rightarrow> bool" where
  "lowestSignal n x = (n < 32 \<and> bit x n \<and> (\<forall>m<n. \<not> bit x m))"

text \<open>
  The state in which \<open>waitImplementation\<close> suspends a caller none of whose desired signals
  is pending: the locals are in the frame, the pointer to the desired set is stored, and
  the thread is on its waiting list with the unblock functor.
\<close>

definition waitImplementation_suspended :: "SignalSet \<Rightarrow> kernel \<Rightarrow> kernel" where
  "waitImplementation_suspended signalSet k =
     (let t = currentThreadControlBlock k;
          pending = getPendingSignalSet (threadControlBlocks k t);
          k1 = updateWaitFrame t
                 (\<lambda>old. \<lparr>framePendingSignalSet = pending, frameWaitingList = []\<rparr>) k;
          k2 = updateThreadControlBlock t (setWaitingSignalSet (Some signalSet)) k1
      in blockInternal (SignalsWaitingList t) (Some (SignalsWaitUnblockFunctor t)) k2)"

text \<open>
  Thread \<open>t\<close> is blocked on the list \<open>c\<close> with no unblock functor, and its only timed wait
  is due at \<open>D\<close>.
\<close>

definition timedWaiter :: "tid \<Rightarrow> listRef \<Rightarrow> time_point \<Rightarrow> kernel \<Rightarrow> bool" where
  "timedWaiter t c D k =
     (unblockInfo (threadControlBlocks k t) = Functor None \<and>
      tcbList (threadControlBlocks k t) = Some c \<and>
      (\<forall>d. ((t, d) \<in> set (timers k)) = (d = D)))"

text \<open>
  The state in which \<open>tryWaitFor(d)\<close> suspends its caller on a semaphore whose value is 0:
  enrolled with the deadline \<open>now() + d + 1\<close> and put on the blocked list.
\<close>

definition tryWaitFor_suspended :: "sid \<Rightarrow> duration \<Rightarrow> kernel \<Rightarrow> kernel" where
  "tryWaitFor_suspended s d k =
     blockInternal (SemaphoreBlockedList s) None
       (k\<lparr>timers := timers k @ [(currentThreadControlBlock k, TickClock_now k + d + 1)]\<rparr>)"

text \<open>
  The return codes of the spec's list: zero, \<open>EINVAL\<close>, \<open>EAGAIN\<close>, \<open>ETIMEDOUT\<close>,
  \<open>EDEADLK\<close>, \<open>EPERM\<close>, \<open>EOVERFLOW\<close> and \<open>EINTR\<close>.
\<close>

definition listedCode :: "ret \<Rightarrow> bool" where
  "listedCode r =
     (r \<in> {OK, Error EINVAL, Error EAGAIN, Error ETIMEDOUT, Error EDEADLK, Error EPERM,
            Error EOVERFLOW, Error EINTR})"

text \<open>
  States for the concrete instances. In \<open>bootKernel\<close> every thread is runnable with no
  signal pending, thread 0 runs, and every semaphore is \<open>Semaphore(0)\<close>, whose maximum is
  the default \<open>UINT_MAX\<close>.
\<close>

definition runnableThread :: threadControlBlock where
  "runnableThread =
     \<lparr>tcbList = None, unblockInfo = Reason UnblockRequest, pendingSignalSet = 0,
      waitingSignalSet = None, priority = 0, boostedPriority = 0, tcbState = Runnable\<rparr>"

definition bootKernel :: kernel where
  "bootKernel =
     \<lparr>tickCount = 0, currentThreadControlBlock = 0,
      threadControlBlocks = (\<lambda>t. runnableThread),
      semaphores = (\<lambda>s. Semaphore 0 (- 1)),
      waitFrames = (\<lambda>t. \<lparr>framePendingSignalSet = 0, frameWaitingList = []\<rparr>),
      timers = [],
      mutexes = (\<lambda>m. \<lparr>mutexOwner = None, mutexRecursive = False, recursionCounter = 0\<rparr>),
      fifoQueues = (\<lambda>q. \<lparr>popSemaphore = 2 * q + 10, pushSemaphore = 2 * q + 11, storage = []\<rparr>)\<rparr>"

text \<open>
  \<open>waiterKernel\<close>: thread 0 has called \<open>wait\<close> on semaphore 0 of \<open>bootKernel\<close> and is
  suspended on its blocked list; thread 1 runs.
\<close>

definition waiterKernel :: kernel where
  "waiterKernel =
     (blockInternal (SemaphoreBlockedList 0) None bootKernel)\<lparr>currentThreadControlBlock := 1\<rparr>"

text \<open>
  \<open>twoWaitersKernel\<close>: after thread 0, thread 2 has called \<open>wait\<close> on the same semaphore
  and is suspended too; thread 1 runs.
\<close>

definition twoWaitersKernel :: kernel where
  "twoWaitersKernel =
     (blockInternal (SemaphoreBlockedList 0) None (waiterKernel\<lparr>currentThreadControlBlock := 2\<rparr>))
       \<lparr>currentThreadControlBlock := 1\<rparr>"

text \<open>
  \<open>priorityKernel\<close>: \<open>bootKernel\<close> with thread 0 at priority 1 and thread 2 at priority 2.
  In \<open>lowThenHighKernel\<close> thread 0 has called \<open>wait\<close> on semaphore 0 first and thread 2
  after it; both are suspended, and thread 1 runs.
\<close>

definition priorityKernel :: kernel where
  "priorityKernel =
     updateThreadControlBlock 2 (\<lambda>tcb. tcb\<lparr>priority := 2\<rparr>)
       (updateThreadControlBlock 0 (\<lambda>tcb. tcb\<lparr>priority := 1\<rparr>) bootKernel)"

definition lowThenHighKernel :: kernel where
  "lowThenHighKernel =
     (blockInternal (SemaphoreBlockedList 0) None
        ((blockInternal (SemaphoreBlockedList 0) None priorityKernel)
           \<lparr>currentThreadControlBlock := 2\<rparr>))
       \<lparr>currentThreadControlBlock := 1\<rparr>"

text \<open>
  \<open>lockedMutexKernel\<close>: thread 1 has locked mutex 0 of \<open>bootKernel\<close> with \<open>tryLock\<close>, and
  thread 0, the test thread, runs.
\<close>

definition lockedMutexKernel :: kernel where
  "lockedMutexKernel =
     (snd (Mutex_tryLock 0 (bootKernel\<lparr>currentThreadControlBlock := 1\<rparr>)))
       \<lparr>currentThreadControlBlock := 0\<rparr>"

text \<open>
  \<open>queueKernel\<close>: queue 0 of \<open>bootKernel\<close> is empty and has one slot: its pop semaphore
  (semaphore 10) is \<open>Semaphore(0, 1)\<close> and its push semaphore (semaphore 11) is
  \<open>Semaphore(1, 1)\<close>.
\<close>

definition queueKernel :: kernel where
  "queueKernel =
     updateSemaphore 11 (\<lambda>old. Semaphore 1 1)
       (updateSemaphore 10 (\<lambda>old. Semaphore 0 1) bootKernel)"

text \<open>
  \<open>fullQueueKernel\<close>: \<open>queueKernel\<close> after \<open>tryPush(7)\<close> on queue 0, which is then full.
\<close>

definition fullQueueKernel :: kernel where
  "fullQueueKernel =
     snd (post 10 (updateFifoQueue 0 (\<lambda>b. b\<lparr>storage := storage b @ [7]\<rparr>)
                     (snd (tryWait 11 queueKernel))))"

text \<open>Thread 0 of \<open>bootKernel\<close> with signals 2 and 3 pending.\<close>

definition signalKernel :: kernel where
  "signalKernel =
     updateThreadControlBlock 0 (\<lambda>tcb. tcb\<lparr>pendingSignalSet := 12\<rparr>) bootKernel"

text \<open>
  The environment of the spec's signal scenario: while thread 0 waits, interrupt handlers
  generate signal 5 and then signal 7 for it.
\<close>

definition signal5then7 :: "kernel \<Rightarrow> kernel" where
  "signal5then7 = (\<lambda>k. snd (generateSignal 0 7 (snd (generateSignal 0 5 k))))"

text \<open>Two \<open>ThreadBase\<close> objects: the running thread 0 and thread 1.\<close>

definition mainThread :: threadBase where
  "mainThread = \<lparr>threadControlBlock = 0, joinSemaphore = 1\<rparr>"

definition otherThread :: threadBase where
  "otherThread = \<lparr>threadControlBlock = 1, joinSemaphore = 2\<rparr>"

section \<open>Theorems\<close>

subsection \<open>The state updates, field by field\<close>

lemma semaphores_updateSemaphore [simp]:
  "semaphores (updateSemaphore s f k) = (semaphores k)(s := f (semaphores k s))"
  by (simp add: updateSemaphore_def)

lemma updateThreadControlBlock_simps [simp]:
  "threadControlBlocks (updateThreadControlBlock t f k) = (threadControlBlocks k)(t := f (threadControlBlocks k t))"
  "semaphores (updateThreadControlBlock t f k) = semaphores k"
  "waitFrames (updateThreadControlBlock t f k) = waitFrames k"
  "timers (updateThreadControlBlock t f k) = timers k"
  "tickCount (updateThreadControlBlock t f k) = tickCount k"
  "currentThreadControlBlock (updateThreadControlBlock t f k) = currentThreadControlBlock k"
  by (simp_all add: updateThreadControlBlock_def)

lemma updateSemaphore_simps [simp]:
  "threadControlBlocks (updateSemaphore s g k) = threadControlBlocks k"
  "waitFrames (updateSemaphore s g k) = waitFrames k"
  "timers (updateSemaphore s g k) = timers k"
  "tickCount (updateSemaphore s g k) = tickCount k"
  "currentThreadControlBlock (updateSemaphore s g k) = currentThreadControlBlock k"
  by (simp_all add: updateSemaphore_def)

lemma updateWaitFrame_simps [simp]:
  "threadControlBlocks (updateWaitFrame t h k) = threadControlBlocks k"
  "semaphores (updateWaitFrame t h k) = semaphores k"
  "waitFrames (updateWaitFrame t h k) = (waitFrames k)(t := h (waitFrames k t))"
  "timers (updateWaitFrame t h k) = timers k"
  "tickCount (updateWaitFrame t h k) = tickCount k"
  "currentThreadControlBlock (updateWaitFrame t h k) = currentThreadControlBlock k"
  by (simp_all add: updateWaitFrame_def)

lemma setList_simps [simp]:
  "threadControlBlocks (setList c ts k) = threadControlBlocks k"
  "timers (setList c ts k) = timers k"
  "tickCount (setList c ts k) = tickCount k"
  "currentThreadControlBlock (setList c ts k) = currentThreadControlBlock k"
  by (cases c; simp)+

lemma semaphores_setList:
  "semaphores (setList c ts k) s =
     (if c = SemaphoreBlockedList s then (semaphores k s)\<lparr>blockedList := ts\<rparr> else semaphores k s)"
  by (cases c) auto

lemma callUnblockFunctor_simps [simp]:
  "semaphores (callUnblockFunctor f t k) = semaphores k"
  "timers (callUnblockFunctor f t k) = timers k"
  "tickCount (callUnblockFunctor f t k) = tickCount k"
  "currentThreadControlBlock (callUnblockFunctor f t k) = currentThreadControlBlock k"
  "threadControlBlocks (callUnblockFunctor f t k) =
     (threadControlBlocks k)(t := setWaitingSignalSet None (threadControlBlocks k t))"
  by (cases f; simp add: SignalsWaitUnblockFunctor_call_def)+

lemma unblockHook_simps [simp]:
  "semaphores (unblockHook t r k) = semaphores k"
  "timers (unblockHook t r k) = timers k"
  "tickCount (unblockHook t r k) = tickCount k"
  "currentThreadControlBlock (unblockHook t r k) = currentThreadControlBlock k"
  by (simp_all add: unblockHook_def Let_def split: unblockInfo.split option.split)

lemma unblockHook_other:
  "t' \<noteq> t \<Longrightarrow> threadControlBlocks (unblockHook t r k) t' = threadControlBlocks k t'"
  by (simp add: unblockHook_def Let_def split: unblockInfo.split option.split)

lemma unblockHook_self:
  "unblockInfo (threadControlBlocks (unblockHook t r k) t) = Reason r"
  "tcbList (threadControlBlocks (unblockHook t r k) t) = tcbList (threadControlBlocks k t)"
  "tcbState (threadControlBlocks (unblockHook t r k) t) = tcbState (threadControlBlocks k t)"
  "pendingSignalSet (threadControlBlocks (unblockHook t r k) t) = pendingSignalSet (threadControlBlocks k t)"
  by (simp_all add: unblockHook_def Let_def setWaitingSignalSet_def split: unblockInfo.split option.split)

lemma unblock_semaphore:
  "semValue (semaphores (unblock t r k) s) = semValue (semaphores k s)"
  "maxValue (semaphores (unblock t r k) s) = maxValue (semaphores k s)"
  "blockedList (semaphores (unblock t r k) s) =
     (if tcbList (threadControlBlocks k t) = Some (SemaphoreBlockedList s)
      then remove1 t (blockedList (semaphores k s)) else blockedList (semaphores k s))"
  by (simp_all add: unblock_def Let_def semaphores_setList split: option.split)

lemma unblock_simps [simp]:
  "tickCount (unblock t r k) = tickCount k"
  "currentThreadControlBlock (unblock t r k) = currentThreadControlBlock k"
  by (simp_all add: unblock_def Let_def split: option.split)

lemma unblock_other:
  "t' \<noteq> t \<Longrightarrow> threadControlBlocks (unblock t r k) t' = threadControlBlocks k t'"
  by (simp add: unblock_def Let_def unblockHook_other split: option.split)

lemma unblock_self:
  "tcbList (threadControlBlocks k t) = Some c \<Longrightarrow>
     tcbState (threadControlBlocks (unblock t r k) t) = Runnable \<and>
     tcbList (threadControlBlocks (unblock t r k) t) = None \<and>
     unblockInfo (threadControlBlocks (unblock t r k) t) = Reason r \<and>
     pendingSignalSet (threadControlBlocks (unblock t r k) t) = pendingSignalSet (threadControlBlocks k t)"
  by (simp add: unblock_def Let_def unblockHook_self)

lemma unblock_timers:
  "timers (unblock t r k) =
     (case tcbList (threadControlBlocks k t) of None \<Rightarrow> timers k
      | Some c \<Rightarrow> filter (\<lambda>(t', deadline). t' \<noteq> t) (timers k))"
  by (simp add: unblock_def Let_def split: option.split)

lemma unat_inc:
  fixes x :: "'a::len word"
  assumes "x < m"
  shows "unat (x + 1) = unat x + 1"
proof -
  from assms have "unat x < unat m" by (simp add: word_less_nat_alt)
  moreover have "unat m < 2 ^ LENGTH('a)" by (rule unsigned_less)
  ultimately have "Suc (unat x) < 2 ^ LENGTH('a)" by linarith
  then have "unat x + unat (1::'a word) < 2 ^ LENGTH('a)" by simp
  then show ?thesis using unat_add_lem [of x 1] by simp
qed

subsection \<open>The concrete states\<close>

lemma bootKernel_simps [simp]:
  "tickCount bootKernel = 0"
  "currentThreadControlBlock bootKernel = 0"
  "threadControlBlocks bootKernel t = runnableThread"
  "semaphores bootKernel s = Semaphore 0 (- 1)"
  "timers bootKernel = []"
  by (simp_all add: bootKernel_def)

lemma Semaphore_simps [simp]:
  "blockedList (Semaphore v m) = []"
  "semValue (Semaphore v m) = (if v \<le> m then v else m)"
  "maxValue (Semaphore v m) = m"
  by (simp_all add: Semaphore_def)

lemma runnableThread_simps [simp]:
  "tcbList runnableThread = None"
  "unblockInfo runnableThread = Reason UnblockRequest"
  "pendingSignalSet runnableThread = 0"
  "waitingSignalSet runnableThread = None"
  "tcbState runnableThread = Runnable"
  by (simp_all add: runnableThread_def)

lemma waiterKernel_simps [simp]:
  "blockedList (semaphores waiterKernel 0) = [0]"
  "semValue (semaphores waiterKernel 0) = 0"
  "maxValue (semaphores waiterKernel 0) = - 1"
  "tcbList (threadControlBlocks waiterKernel 0) = Some (SemaphoreBlockedList 0)"
  by (simp_all add: waiterKernel_def blockInternal_def Let_def blockHook_def)

subsection \<open>Semaphore\<close>

text \<open>
  C6: \<open>Semaphore::tryWait\<close> never blocks: it takes no environment and always returns. If the
  value is 0 it returns \<open>EAGAIN\<close> and leaves the whole kernel state, so the semaphore's value
  and blocked list, unchanged; otherwise it returns 0, decrements the value by exactly 1
  and changes nothing else.
\<close>

theorem tryWait_spec:
  "tryWait s k =
     (if semValue (semaphores k s) = 0 then (Error EAGAIN, k)
      else (OK, k\<lparr>semaphores := (semaphores k)
                   (s := (semaphores k s)\<lparr>semValue := semValue (semaphores k s) - 1\<rparr>)\<rparr>))"
  by (simp add: tryWait_def tryWaitInternal_def updateSemaphore_def)

theorem tryWait_spec_witness:
  "tryWait 0 bootKernel = (Error EAGAIN, bootKernel) \<and>
   fst (tryWait 0 (snd (post 0 bootKernel))) = OK \<and>
   semValue (semaphores (snd (tryWait 0 (snd (post 0 bootKernel)))) 0) = 0"
  using tryWait_spec [of 0 bootKernel] tryWait_spec [of 0 "snd (post 0 bootKernel)"]
  by (simp add: post_def)

subsection \<open>The semaphore invariant\<close>

lemma post_semaphores_cases:
  "snd (post s k) = k \<or>
   snd (post s k) = unblock (hd (blockedList (semaphores k s))) UnblockRequest k \<and>
     blockedList (semaphores k s) \<noteq> [] \<or>
   snd (post s k) = updateSemaphore s (\<lambda>sem. sem\<lparr>semValue := semValue sem + 1\<rparr>) k \<and>
     blockedList (semaphores k s) = [] \<and> semValue (semaphores k s) \<noteq> maxValue (semaphores k s)"
  by (simp add: post_def)

lemma unblock_blockedList_Nil:
  "blockedList (semaphores k s) = [] \<Longrightarrow> blockedList (semaphores (unblock t r k) s) = []"
  by (simp add: unblock_semaphore)

lemma unblock_semaphoreInvariant:
  "semaphoreInvariant s k \<Longrightarrow> semaphoreInvariant s (unblock t r k)"
  by (auto simp: semaphoreInvariant_def unblock_semaphore)

lemma post_semaphoreInvariant:
  assumes "semaphoreInvariant s' k"
  shows "semaphoreInvariant s' (snd (post s k))"
proof -
  consider (a) "snd (post s k) = k"
    | (b) "snd (post s k) = unblock (hd (blockedList (semaphores k s))) UnblockRequest k"
    | (c) "snd (post s k) = updateSemaphore s (\<lambda>sem. sem\<lparr>semValue := semValue sem + 1\<rparr>) k"
          "blockedList (semaphores k s) = []"
    using post_semaphores_cases [of s k] by blast
  then show ?thesis
  proof cases
    case a then show ?thesis using assms by simp
  next
    case b then show ?thesis using assms by (simp add: unblock_semaphoreInvariant)
  next
    case c then show ?thesis using assms by (auto simp: semaphoreInvariant_def)
  qed
qed

lemma tryWaitInternal_semaphoreInvariant:
  "semaphoreInvariant s' k \<Longrightarrow> semaphoreInvariant s' (snd (tryWaitInternal s k))"
  by (auto simp: semaphoreInvariant_def tryWaitInternal_def)

lemma blockInternal_semaphore:
  "semValue (semaphores (blockInternal c f k) s) = semValue (semaphores k s)"
  "maxValue (semaphores (blockInternal c f k) s) = maxValue (semaphores k s)"
  "blockedList (semaphores (blockInternal c f k) s) =
     (if c = SemaphoreBlockedList s
      then sortedInsert (effectivePriority k) (currentThreadControlBlock k) (blockedList (semaphores k s))
      else blockedList (semaphores k s))"
  by (simp_all add: blockInternal_def Let_def semaphores_setList)

lemma blockInternal_semaphoreInvariant:
  "semaphoreInvariant s' k \<Longrightarrow> semValue (semaphores k s) = 0 \<Longrightarrow>
     semaphoreInvariant s' (blockInternal (SemaphoreBlockedList s) f k)"
  by (auto simp: semaphoreInvariant_def blockInternal_semaphore)

lemma block_Some:
  "block env c f k = Some (r, k') \<Longrightarrow>
     k' = (env (blockInternal c f k))\<lparr>currentThreadControlBlock := currentThreadControlBlock k\<rparr>"
  by (auto simp: block_def Let_def split: unblockInfo.splits)

lemma blockUntil_Some:
  "blockUntil env c tp f k = Some (r, k') \<Longrightarrow>
     k' = k \<or>
     k' = (env (blockInternal c f (k\<lparr>timers := timers k @ [(currentThreadControlBlock k, tp)]\<rparr>)))
            \<lparr>currentThreadControlBlock := currentThreadControlBlock k\<rparr>"
  by (auto simp: blockUntil_def dest: block_Some split: if_splits)

lemma wait_unlocked:
  "semValue (semaphores k s) \<noteq> 0 \<Longrightarrow> wait env s k = Some (tryWait s k)"
  by (simp add: wait_def tryWait_def tryWaitInternal_def)

lemma tryWaitUntil_unlocked:
  "semValue (semaphores k s) \<noteq> 0 \<Longrightarrow> tryWaitUntil env s tp k = Some (tryWait s k)"
  by (simp add: tryWaitUntil_def tryWait_def tryWaitInternal_def)

lemma wait_locked:
  "semValue (semaphores k s) = 0 \<Longrightarrow> wait env s k = block env (SemaphoreBlockedList s) None k"
  by (simp add: wait_def tryWaitInternal_def)

lemma tryWaitUntil_locked:
  "semValue (semaphores k s) = 0 \<Longrightarrow>
     tryWaitUntil env s tp k = blockUntil env (SemaphoreBlockedList s) tp None k"
  by (simp add: tryWaitUntil_def tryWaitInternal_def)

lemma semaphoreInvariant_cong:
  "semaphores k' = semaphores k \<Longrightarrow> semaphoreInvariant s k' = semaphoreInvariant s k"
  by (simp add: semaphoreInvariant_def)

lemma wait_semaphoreInvariant:
  assumes inv: "semaphoreInvariant s' k"
    and env: "\<forall>k0. semaphoreInvariant s' k0 \<longrightarrow> semaphoreInvariant s' (env k0)"
    and w: "wait env s k = Some (r, k')"
  shows "semaphoreInvariant s' k'"
proof (cases "semValue (semaphores k s) = 0")
  case True
  with w have "block env (SemaphoreBlockedList s) None k = Some (r, k')" by (simp add: wait_locked)
  then have "k' = (env (blockInternal (SemaphoreBlockedList s) None k))
                    \<lparr>currentThreadControlBlock := currentThreadControlBlock k\<rparr>"
    by (rule block_Some)
  moreover have "semaphoreInvariant s' (env (blockInternal (SemaphoreBlockedList s) None k))"
    using env inv True by (simp add: blockInternal_semaphoreInvariant)
  ultimately show ?thesis by (simp add: semaphoreInvariant_def)
next
  case False
  with w have "k' = snd (tryWaitInternal s k)" by (simp add: wait_unlocked tryWait_def)
  then show ?thesis using inv by (simp add: tryWaitInternal_semaphoreInvariant)
qed

lemma tryWaitUntil_semaphoreInvariant:
  assumes inv: "semaphoreInvariant s' k"
    and env: "\<forall>k0. semaphoreInvariant s' k0 \<longrightarrow> semaphoreInvariant s' (env k0)"
    and w: "tryWaitUntil env s tp k = Some (r, k')"
  shows "semaphoreInvariant s' k'"
proof (cases "semValue (semaphores k s) = 0")
  case True
  let ?k1 = "k\<lparr>timers := timers k @ [(currentThreadControlBlock k, tp)]\<rparr>"
  from True w have "blockUntil env (SemaphoreBlockedList s) tp None k = Some (r, k')"
    by (simp add: tryWaitUntil_locked)
  then consider "k' = k"
    | "k' = (env (blockInternal (SemaphoreBlockedList s) None ?k1))
              \<lparr>currentThreadControlBlock := currentThreadControlBlock k\<rparr>"
    using blockUntil_Some by blast
  then show ?thesis
  proof cases
    case 1 then show ?thesis using inv by simp
  next
    case 2
    have "semaphoreInvariant s' ?k1" using inv by (simp add: semaphoreInvariant_def)
    moreover have "semValue (semaphores ?k1 s) = 0" using True by simp
    ultimately have "semaphoreInvariant s' (env (blockInternal (SemaphoreBlockedList s) None ?k1))"
      using env by (simp add: blockInternal_semaphoreInvariant)
    with 2 show ?thesis by (simp add: semaphoreInvariant_def)
  qed
next
  case False
  with w have "k' = snd (tryWaitInternal s k)" by (simp add: tryWaitUntil_unlocked tryWait_def)
  then show ?thesis using inv by (simp add: tryWaitInternal_semaphoreInvariant)
qed

lemma expire_semaphore:
  "semValue (semaphores (fold (\<lambda>(t, deadline) k'. if deadline = now then unblock t Timeout k' else k') ts k) s)
     = semValue (semaphores k s) \<and>
   maxValue (semaphores (fold (\<lambda>(t, deadline) k'. if deadline = now then unblock t Timeout k' else k') ts k) s)
     = maxValue (semaphores k s) \<and>
   (blockedList (semaphores k s) = [] \<longrightarrow>
    blockedList (semaphores (fold (\<lambda>(t, deadline) k'. if deadline = now then unblock t Timeout k' else k') ts k) s) = [])"
  by (induction ts arbitrary: k) (auto simp: unblock_semaphore)

lemma tickHook_semaphore:
  "semValue (semaphores (tickHook k) s) = semValue (semaphores k s)"
  "maxValue (semaphores (tickHook k) s) = maxValue (semaphores k s)"
  "blockedList (semaphores k s) = [] \<Longrightarrow> blockedList (semaphores (tickHook k) s) = []"
  using expire_semaphore [of "tickCount k + 1" "timers k" "k\<lparr>tickCount := tickCount k + 1\<rparr>" s]
  by (simp_all add: tickHook_def Let_def)

lemma tickHook_semaphoreInvariant:
  "semaphoreInvariant s k \<Longrightarrow> semaphoreInvariant s (tickHook k)"
  by (auto simp: semaphoreInvariant_def tickHook_semaphore)

text \<open>
  C5: the invariant \<open>value == 0\<close> or the blocked list is empty, for a semaphore \<open>s'\<close> and
  the operations on any semaphore \<open>s\<close>. A constructed semaphore satisfies it. \<open>post\<close>,
  \<open>tryWait\<close> and the tick that expires timed waits preserve it; \<open>post\<close> leaves the value
  alone whenever waiters exist. \<open>wait\<close> and \<open>tryWaitUntil\<close> do not block when the value
  is not 0 (they are \<open>tryWait\<close>); when it is 0, the state in which the caller is suspended
  satisfies the invariant; and if what runs while the caller is blocked preserves the
  invariant, so does the state in which \<open>wait\<close> or \<open>tryWaitUntil\<close> returns.
\<close>
theorem semaphore_invariant_preserved:
  assumes inv: "semaphoreInvariant s' k"
  shows "semaphoreInvariant s' (updateSemaphore s' (\<lambda>old. Semaphore v m) k) \<and>
         semaphoreInvariant s' (snd (post s k)) \<and>
         semaphoreInvariant s' (snd (tryWait s k)) \<and>
         semaphoreInvariant s' (tickHook k) \<and>
         (blockedList (semaphores k s) \<noteq> [] \<longrightarrow>
            semValue (semaphores (snd (post s k)) s) = semValue (semaphores k s)) \<and>
         (semValue (semaphores k s) \<noteq> 0 \<longrightarrow>
            wait env s k = Some (tryWait s k) \<and> tryWaitUntil env s tp k = Some (tryWait s k)) \<and>
         (semValue (semaphores k s) = 0 \<longrightarrow>
            semaphoreInvariant s' (blockInternal (SemaphoreBlockedList s) None k)) \<and>
         ((\<forall>k0. semaphoreInvariant s' k0 \<longrightarrow> semaphoreInvariant s' (env k0)) \<longrightarrow>
            (\<forall>r k'. wait env s k = Some (r, k') \<longrightarrow> semaphoreInvariant s' k') \<and>
            (\<forall>r k'. tryWaitUntil env s tp k = Some (r, k') \<longrightarrow> semaphoreInvariant s' k'))"
proof (intro conjI impI allI)
  show "semaphoreInvariant s' (updateSemaphore s' (\<lambda>old. Semaphore v m) k)"
    by (simp add: semaphoreInvariant_def)
  show "semaphoreInvariant s' (snd (post s k))"
    using inv by (rule post_semaphoreInvariant)
  show "semaphoreInvariant s' (snd (tryWait s k))"
    using inv by (simp add: tryWait_def tryWaitInternal_semaphoreInvariant)
  show "semaphoreInvariant s' (tickHook k)"
    using inv by (rule tickHook_semaphoreInvariant)
  show "semValue (semaphores (snd (post s k)) s) = semValue (semaphores k s)"
    if "blockedList (semaphores k s) \<noteq> []"
    using that by (simp add: post_def unblock_semaphore)
  show "wait env s k = Some (tryWait s k)" if "semValue (semaphores k s) \<noteq> 0"
    using that by (rule wait_unlocked)
  show "tryWaitUntil env s tp k = Some (tryWait s k)" if "semValue (semaphores k s) \<noteq> 0"
    using that by (rule tryWaitUntil_unlocked)
  show "semaphoreInvariant s' (blockInternal (SemaphoreBlockedList s) None k)"
    if "semValue (semaphores k s) = 0"
    using inv that by (rule blockInternal_semaphoreInvariant)
  show "semaphoreInvariant s' k'"
    if "\<forall>k0. semaphoreInvariant s' k0 \<longrightarrow> semaphoreInvariant s' (env k0)"
      and "wait env s k = Some (r, k')" for r k'
    using inv that by (rule wait_semaphoreInvariant)
  show "semaphoreInvariant s' k'"
    if "\<forall>k0. semaphoreInvariant s' k0 \<longrightarrow> semaphoreInvariant s' (env k0)"
      and "tryWaitUntil env s tp k = Some (r, k')" for r k'
    using inv that by (rule tryWaitUntil_semaphoreInvariant)
qed

lemma wait_post_bootKernel:
  "\<exists>k'. wait (\<lambda>k. snd (post 0 k)) 0 bootKernel = Some (OK, k')"
  by (simp add: wait_def tryWaitInternal_def block_def blockInternal_def Let_def blockHook_def
      post_def unblock_def unblockHook_def)

lemma tryWaitUntil_post_bootKernel:
  "\<exists>k'. tryWaitUntil (\<lambda>k. snd (post 0 k)) 0 5 bootKernel = Some (OK, k')"
  by (simp add: tryWaitUntil_def tryWaitInternal_def blockUntil_def TickClock_now_def
      block_def blockInternal_def Let_def blockHook_def
      post_def unblock_def unblockHook_def)

theorem semaphore_invariant_preserved_witness:
  "semaphoreInvariant 0 bootKernel \<and>
   semaphoreInvariant 0 (snd (post 0 bootKernel)) \<and>
   semaphoreInvariant 0 (snd (post 0 waiterKernel)) \<and>
   semValue (semaphores (snd (post 0 waiterKernel)) 0) = 0 \<and>
   wait id 0 (snd (post 0 bootKernel)) = Some (tryWait 0 (snd (post 0 bootKernel))) \<and>
   semaphoreInvariant 0 (blockInternal (SemaphoreBlockedList 0) None bootKernel) \<and>
   (\<exists>k'. wait (\<lambda>k. snd (post 0 k)) 0 bootKernel = Some (OK, k') \<and> semaphoreInvariant 0 k') \<and>
   (\<exists>k'. tryWaitUntil (\<lambda>k. snd (post 0 k)) 0 5 bootKernel = Some (OK, k') \<and> semaphoreInvariant 0 k')"
proof -
  have b: "semaphoreInvariant 0 bootKernel" by (simp add: semaphoreInvariant_def)
  have w: "semaphoreInvariant 0 waiterKernel" by (simp add: semaphoreInvariant_def)
  have p: "semaphoreInvariant 0 (snd (post 0 bootKernel))" by (simp add: semaphoreInvariant_def post_def)
  have e: "\<forall>k0. semaphoreInvariant 0 k0 \<longrightarrow> semaphoreInvariant 0 (snd (post 0 k0))"
    by (simp add: post_semaphoreInvariant)
  note B = semaphore_invariant_preserved [OF b, where s = 0 and env = "\<lambda>k. snd (post 0 k)" and tp = 5]
  note W = semaphore_invariant_preserved [OF w, where s = 0 and env = id and tp = 5]
  note P = semaphore_invariant_preserved [OF p, where s = 0 and env = id and tp = 5]
  have 1: "semaphoreInvariant 0 (snd (post 0 waiterKernel))" using W by blast
  have 2: "semValue (semaphores (snd (post 0 waiterKernel)) 0) = 0" using W by simp
  have 3: "wait id 0 (snd (post 0 bootKernel)) = Some (tryWait 0 (snd (post 0 bootKernel)))"
    using P by (simp add: post_def)
  have 4: "semaphoreInvariant 0 (blockInternal (SemaphoreBlockedList 0) None bootKernel)"
    using B by simp
  have 5: "\<exists>k'. wait (\<lambda>k. snd (post 0 k)) 0 bootKernel = Some (OK, k') \<and> semaphoreInvariant 0 k'"
    using B e wait_post_bootKernel by blast
  have 6: "\<exists>k'. tryWaitUntil (\<lambda>k. snd (post 0 k)) 0 5 bootKernel = Some (OK, k') \<and> semaphoreInvariant 0 k'"
    using B e tryWaitUntil_post_bootKernel by blast
  show ?thesis using b p 1 2 3 4 5 6 by blast
qed

subsection \<open>The bound of the value\<close>

lemma semaphoreBounded_unblock:
  "semaphoreBounded s k \<Longrightarrow> semaphoreBounded s (unblock t r k)"
  by (simp add: semaphoreBounded_def unblock_semaphore)

lemma post_semaphoreBounded:
  assumes "semaphoreBounded s' k"
  shows "semaphoreBounded s' (snd (post s k))"
proof -
  consider (a) "snd (post s k) = k"
    | (b) "snd (post s k) = unblock (hd (blockedList (semaphores k s))) UnblockRequest k"
    | (c) "snd (post s k) = updateSemaphore s (\<lambda>sem. sem\<lparr>semValue := semValue sem + 1\<rparr>) k"
          "semValue (semaphores k s) \<noteq> maxValue (semaphores k s)"
    using post_semaphores_cases [of s k] by blast
  then show ?thesis
  proof cases
    case a then show ?thesis using assms by simp
  next
    case b then show ?thesis using assms by (simp add: semaphoreBounded_unblock)
  next
    case c
    show ?thesis
    proof (cases "s' = s")
      case True
      with assms c(2) have "semValue (semaphores k s) < maxValue (semaphores k s)"
        by (simp add: semaphoreBounded_def order_less_le)
      then have "semValue (semaphores k s) + 1 \<le> maxValue (semaphores k s)" by (rule inc_le)
      with True c(1) show ?thesis by (simp add: semaphoreBounded_def)
    next
      case False
      with assms c(1) show ?thesis by (simp add: semaphoreBounded_def)
    qed
  qed
qed

lemma tryWaitInternal_semaphoreBounded:
  assumes "semaphoreBounded s' k"
  shows "semaphoreBounded s' (snd (tryWaitInternal s k))"
proof (cases "semValue (semaphores k s) = 0 \<or> s' \<noteq> s")
  case True
  with assms show ?thesis by (auto simp: semaphoreBounded_def tryWaitInternal_def)
next
  case False
  then have "semValue (semaphores k s) - 1 \<le> semValue (semaphores k s)"
    using less_eq_dec_triv_imp nle_le by blast
  with assms False show ?thesis by (auto simp: semaphoreBounded_def tryWaitInternal_def)
qed

lemma blockInternal_semaphoreBounded:
  "semaphoreBounded s k \<Longrightarrow> semaphoreBounded s (blockInternal c f k)"
  by (simp add: semaphoreBounded_def blockInternal_semaphore)

lemma block_semaphoreBounded:
  assumes "semaphoreBounded s' k"
    and "\<forall>k0. semaphoreBounded s' k0 \<longrightarrow> semaphoreBounded s' (env k0)"
    and "block env c f k = Some (r, k')"
  shows "semaphoreBounded s' k'"
proof -
  from assms(3) have "k' = (env (blockInternal c f k))\<lparr>currentThreadControlBlock := currentThreadControlBlock k\<rparr>"
    by (rule block_Some)
  moreover have "semaphoreBounded s' (env (blockInternal c f k))"
    using assms(1,2) by (simp add: blockInternal_semaphoreBounded)
  ultimately show ?thesis by (simp add: semaphoreBounded_def)
qed

lemma wait_semaphoreBounded:
  assumes "semaphoreBounded s' k"
    and "\<forall>k0. semaphoreBounded s' k0 \<longrightarrow> semaphoreBounded s' (env k0)"
    and w: "wait env s k = Some (r, k')"
  shows "semaphoreBounded s' k'"
proof (cases "semValue (semaphores k s) = 0")
  case True
  with w have "block env (SemaphoreBlockedList s) None k = Some (r, k')" by (simp add: wait_locked)
  with assms(1,2) show ?thesis by (rule block_semaphoreBounded)
next
  case False
  with w have "k' = snd (tryWaitInternal s k)" by (simp add: wait_unlocked tryWait_def)
  then show ?thesis using assms(1) by (simp add: tryWaitInternal_semaphoreBounded)
qed

lemma tryWaitUntil_semaphoreBounded:
  assumes b: "semaphoreBounded s' k"
    and env: "\<forall>k0. semaphoreBounded s' k0 \<longrightarrow> semaphoreBounded s' (env k0)"
    and w: "tryWaitUntil env s tp k = Some (r, k')"
  shows "semaphoreBounded s' k'"
proof (cases "semValue (semaphores k s) = 0")
  case True
  let ?k1 = "k\<lparr>timers := timers k @ [(currentThreadControlBlock k, tp)]\<rparr>"
  from True w have "blockUntil env (SemaphoreBlockedList s) tp None k = Some (r, k')"
    by (simp add: tryWaitUntil_locked)
  then consider "k' = k" | "block env (SemaphoreBlockedList s) None ?k1 = Some (r, k')"
    by (auto simp: blockUntil_def split: if_splits)
  then show ?thesis
  proof cases
    case 1 then show ?thesis using b by simp
  next
    case 2
    have "semaphoreBounded s' ?k1" using b by (simp add: semaphoreBounded_def)
    then show ?thesis using env 2 by (rule block_semaphoreBounded)
  qed
next
  case False
  with w have "k' = snd (tryWaitInternal s k)" by (simp add: tryWaitUntil_unlocked tryWait_def)
  then show ?thesis using b by (simp add: tryWaitInternal_semaphoreBounded)
qed

text \<open>
  C10: \<open>Semaphore(value, maxValue)\<close> with \<open>value > maxValue\<close> starts at \<open>maxValue\<close>, otherwise
  at \<open>value\<close>, so \<open>value <= maxValue\<close> holds initially. \<open>post\<close> at \<open>value == maxValue\<close>
  returns \<open>EOVERFLOW\<close> and changes nothing. The bound of a semaphore \<open>s'\<close> is preserved by
  \<open>post\<close>, \<open>tryWait\<close>, the tick and the suspension of a caller on any list, and by \<open>wait\<close>,
  \<open>tryWaitUntil\<close> and \<open>tryWaitFor\<close> on any semaphore \<open>s\<close> when what runs while the caller is
  blocked preserves it.
\<close>
theorem semaphore_value_bounded:
  "semValue (Semaphore v m) = (if m < v then m else v) \<and>
   maxValue (Semaphore v m) = m \<and>
   semValue (Semaphore v m) \<le> maxValue (Semaphore v m) \<and>
   semaphoreBounded s' (updateSemaphore s' (\<lambda>old. Semaphore v m) k) \<and>
   (semValue (semaphores k s) = maxValue (semaphores k s) \<longrightarrow> post s k = (Error EOVERFLOW, k)) \<and>
   (semaphoreBounded s' k \<longrightarrow>
      semaphoreBounded s' (snd (post s k)) \<and>
      semaphoreBounded s' (snd (tryWait s k)) \<and>
      semaphoreBounded s' (tickHook k) \<and>
      semaphoreBounded s' (blockInternal c f k) \<and>
      ((\<forall>k0. semaphoreBounded s' k0 \<longrightarrow> semaphoreBounded s' (env k0)) \<longrightarrow>
         (\<forall>r k'. wait env s k = Some (r, k') \<longrightarrow> semaphoreBounded s' k') \<and>
         (\<forall>r k'. tryWaitUntil env s tp k = Some (r, k') \<longrightarrow> semaphoreBounded s' k') \<and>
         (\<forall>r k'. tryWaitFor env s d k = Some (r, k') \<longrightarrow> semaphoreBounded s' k')))"
proof (intro conjI impI allI)
  show "semValue (Semaphore v m) = (if m < v then m else v)" by (auto simp: not_le)
  show "maxValue (Semaphore v m) = m" by simp
  show "semValue (Semaphore v m) \<le> maxValue (Semaphore v m)" by simp
  show "semaphoreBounded s' (updateSemaphore s' (\<lambda>old. Semaphore v m) k)"
    by (simp add: semaphoreBounded_def)
  show "post s k = (Error EOVERFLOW, k)" if "semValue (semaphores k s) = maxValue (semaphores k s)"
    using that by (simp add: post_def)
  show "semaphoreBounded s' (snd (post s k))" if "semaphoreBounded s' k"
    using that by (rule post_semaphoreBounded)
  show "semaphoreBounded s' (snd (tryWait s k))" if "semaphoreBounded s' k"
    using that by (simp add: tryWait_def tryWaitInternal_semaphoreBounded)
  show "semaphoreBounded s' (tickHook k)" if "semaphoreBounded s' k"
    using that by (simp add: semaphoreBounded_def tickHook_semaphore)
  show "semaphoreBounded s' (blockInternal c f k)" if "semaphoreBounded s' k"
    using that by (rule blockInternal_semaphoreBounded)
  show "semaphoreBounded s' k'"
    if "semaphoreBounded s' k" "\<forall>k0. semaphoreBounded s' k0 \<longrightarrow> semaphoreBounded s' (env k0)"
      "wait env s k = Some (r, k')" for r k'
    using that by (rule wait_semaphoreBounded)
  show "semaphoreBounded s' k'"
    if "semaphoreBounded s' k" "\<forall>k0. semaphoreBounded s' k0 \<longrightarrow> semaphoreBounded s' (env k0)"
      "tryWaitUntil env s tp k = Some (r, k')" for r k'
    using that by (rule tryWaitUntil_semaphoreBounded)
  show "semaphoreBounded s' k'"
    if "semaphoreBounded s' k" "\<forall>k0. semaphoreBounded s' k0 \<longrightarrow> semaphoreBounded s' (env k0)"
      "tryWaitFor env s d k = Some (r, k')" for r k'
    using that unfolding tryWaitFor_def by (rule tryWaitUntil_semaphoreBounded)
qed

theorem semaphore_value_bounded_witness:
  "semValue (Semaphore 7 3) = 3 \<and> semValue (Semaphore 2 3) = 2 \<and>
   post 0 (updateSemaphore 0 (\<lambda>old. Semaphore 7 3) bootKernel)
     = (Error EOVERFLOW, updateSemaphore 0 (\<lambda>old. Semaphore 7 3) bootKernel) \<and>
   semaphoreBounded 0 bootKernel \<and>
   semaphoreBounded 0 (snd (post 0 bootKernel)) \<and>
   semaphoreBounded 0 (snd (tryWait 0 bootKernel)) \<and>
   (\<exists>k'. wait (\<lambda>k. snd (post 0 k)) 0 bootKernel = Some (OK, k') \<and> semaphoreBounded 0 k') \<and>
   (\<exists>k'. tryWaitUntil (\<lambda>k. snd (post 0 k)) 0 5 bootKernel = Some (OK, k') \<and> semaphoreBounded 0 k')"
proof -
  have b: "semaphoreBounded 0 bootKernel" by (simp add: semaphoreBounded_def)
  have e: "\<forall>k0. semaphoreBounded 0 k0 \<longrightarrow> semaphoreBounded 0 (snd (post 0 k0))"
    by (simp add: post_semaphoreBounded)
  note A = semaphore_value_bounded [where v = 7 and m = 3 and s = 0 and s' = 0
      and k = "updateSemaphore 0 (\<lambda>old. Semaphore 7 3) bootKernel"]
  note A' = semaphore_value_bounded [where v = 2 and m = 3]
  note B = semaphore_value_bounded [where s' = 0 and s = 0 and k = bootKernel
      and env = "\<lambda>k. snd (post 0 k)" and tp = 5]
  have 1: "semValue (Semaphore 7 3) = 3" using A by simp
  have 2: "semValue (Semaphore 2 3) = 2" using A' by simp
  have 3: "post 0 (updateSemaphore 0 (\<lambda>old. Semaphore 7 3) bootKernel)
     = (Error EOVERFLOW, updateSemaphore 0 (\<lambda>old. Semaphore 7 3) bootKernel)" using A by simp
  have 4: "semaphoreBounded 0 (snd (post 0 bootKernel))" using B b by blast
  have 5: "semaphoreBounded 0 (snd (tryWait 0 bootKernel))" using B b by blast
  have 6: "\<exists>k'. wait (\<lambda>k. snd (post 0 k)) 0 bootKernel = Some (OK, k') \<and> semaphoreBounded 0 k'"
    using B b e wait_post_bootKernel by blast
  have 7: "\<exists>k'. tryWaitUntil (\<lambda>k. snd (post 0 k)) 0 5 bootKernel = Some (OK, k') \<and> semaphoreBounded 0 k'"
    using B b e tryWaitUntil_post_bootKernel by blast
  show ?thesis using b 1 2 3 4 5 6 7 by blast
qed

text \<open>
  C7: on a semaphore with an empty blocked list and a value strictly below its maximum,
  \<open>post\<close> returns 0, and the \<open>wait\<close> that follows returns 0 whatever the environment is
  (it does not block) in the kernel state from before the \<open>post\<close>: the value is what it
  was, and so is everything else.
\<close>
theorem post_wait_roundtrip:
  assumes "blockedList (semaphores k s) = []"
    and "semValue (semaphores k s) < maxValue (semaphores k s)"
  shows "fst (post s k) = OK \<and> wait env s (snd (post s k)) = Some (OK, k)"
proof -
  from assms(2) have ne: "semValue (semaphores k s) \<noteq> maxValue (semaphores k s)" by simp
  from assms(2) have "unat (semValue (semaphores k s) + 1) = unat (semValue (semaphores k s)) + 1"
    by (rule unat_inc)
  then have nz: "semValue (semaphores k s) + 1 \<noteq> 0" by (metis Suc_eq_plus1 nat.simps(3) unat_0 unsigned_0)
  show ?thesis using ne nz assms(1)
    by (simp add: post_def wait_def tryWaitInternal_def updateSemaphore_def)
qed

theorem post_wait_roundtrip_witness:
  "blockedList (semaphores bootKernel 0) = [] \<and>
   semValue (semaphores bootKernel 0) < maxValue (semaphores bootKernel 0) \<and>
   fst (post 0 bootKernel) = OK \<and>
   wait tickHook 0 (snd (post 0 bootKernel)) = Some (OK, bootKernel)"
proof -
  have 1: "blockedList (semaphores bootKernel 0) = []" by simp
  have 2: "semValue (semaphores bootKernel 0) < maxValue (semaphores bootKernel 0)"
    by (simp add: word_gt_0)
  show ?thesis using 1 2 post_wait_roundtrip [OF 1 2, of tickHook] by simp
qed


subsection \<open>Priority order of the blocked lists\<close>

lemma sortedInsert_set [simp]: "set (sortedInsert p t ts) = insert t (set ts)"
  by (induction ts) auto

lemma sortedInsert_distinct: "t \<notin> set ts \<Longrightarrow> distinct ts \<Longrightarrow> distinct (sortedInsert p t ts)"
  by (induction ts) auto

lemma sortedInsert_sorted:
  "sorted_wrt (\<lambda>a b. p b \<le> p a) ts \<Longrightarrow> sorted_wrt (\<lambda>a b. p b \<le> p a) (sortedInsert p t ts)"
  by (induction ts) (auto simp: not_less intro: order_trans less_imp_le)



lemma sorted_head_max:
  "sorted_wrt (\<lambda>a b. p b \<le> p a) (t # ts) \<Longrightarrow> \<forall>u \<in> set ts. p u \<le> p t"
  by simp

lemma unblock_priority:
  "priority (threadControlBlocks (unblock t r k) u) = priority (threadControlBlocks k u)"
  "boostedPriority (threadControlBlocks (unblock t r k) u) = boostedPriority (threadControlBlocks k u)"
  by (simp_all add: unblock_def Let_def unblockHook_def setWaitingSignalSet_def
      split: option.split unblockInfo.split)

lemma effectivePriority_unblock [simp]: "effectivePriority (unblock t r k) = effectivePriority k"
  by (rule ext) (simp add: effectivePriority_def getEffectivePriority_def unblock_priority)



lemma blockInternal_tcb:
  "tcbList (threadControlBlocks (blockInternal c f k) u) =
     (if u = currentThreadControlBlock k then Some c else tcbList (threadControlBlocks k u))"
  "priority (threadControlBlocks (blockInternal c f k) u) = priority (threadControlBlocks k u)"
  "boostedPriority (threadControlBlocks (blockInternal c f k) u) = boostedPriority (threadControlBlocks k u)"
  by (simp_all add: blockInternal_def Let_def blockHook_def)

lemma effectivePriority_blockInternal [simp]:
  "effectivePriority (blockInternal c f k) = effectivePriority k"
  by (rule ext) (simp add: effectivePriority_def getEffectivePriority_def blockInternal_tcb)

lemma wellFormed_blockInternal:
  assumes wf: "wellFormed k" and run: "tcbList (threadControlBlocks k (currentThreadControlBlock k)) = None"
  shows "wellFormed (blockInternal c f k)"
  unfolding wellFormed_def
proof (intro allI conjI ballI)
  fix s
  let ?t = "currentThreadControlBlock k"
  let ?old = "blockedList (semaphores k s)"
  let ?new = "blockedList (semaphores (blockInternal c f k) s)"
  from wf have d: "distinct ?old" and so: "sortedByPriority k ?old"
    and m: "\<forall>u \<in> set ?old. tcbList (threadControlBlocks k u) = Some (SemaphoreBlockedList s)"
    by (simp_all add: wellFormed_def)
  from m run have nt: "?t \<notin> set ?old" by auto
  have new: "?new = (if c = SemaphoreBlockedList s then sortedInsert (effectivePriority k) ?t ?old else ?old)"
    by (simp add: blockInternal_semaphore)
  show "distinct ?new" using d nt by (simp add: new sortedInsert_distinct)
  show "sortedByPriority (blockInternal c f k) ?new"
    using so by (simp add: new sortedByPriority_def sortedInsert_sorted)
  fix u assume u: "u \<in> set ?new"
  show "tcbList (threadControlBlocks (blockInternal c f k) u) = Some (SemaphoreBlockedList s)"
  proof (cases "u = ?t")
    case True
    with u nt have "c = SemaphoreBlockedList s" by (auto simp: new split: if_splits)
    with True show ?thesis by (simp add: blockInternal_tcb)
  next
    case False
    with u have "u \<in> set ?old" by (auto simp: new split: if_splits)
    with m False show ?thesis by (simp add: blockInternal_tcb)
  qed
qed

lemma wellFormed_cong:
  assumes "\<And>s. blockedList (semaphores k' s) = blockedList (semaphores k s)"
    and "threadControlBlocks k' = threadControlBlocks k"
  shows "wellFormed k' = wellFormed k"
  using assms by (simp add: wellFormed_def sortedByPriority_def effectivePriority_def)








lemma twoWaitersKernel_eq:
  "twoWaitersKernel =
     (blockInternal (SemaphoreBlockedList 0) None (waiterKernel\<lparr>currentThreadControlBlock := 2\<rparr>))
       \<lparr>currentThreadControlBlock := 1\<rparr>"
  by (simp add: twoWaitersKernel_def)

lemma wellFormed_current [simp]: "wellFormed (k\<lparr>currentThreadControlBlock := t\<rparr>) = wellFormed k"
  by (rule wellFormed_cong) simp_all


lemma waiterKernel_thread2 [simp]: "tcbList (threadControlBlocks waiterKernel 2) = None"
  by (simp add: waiterKernel_def blockInternal_tcb)


lemma wellFormed_priorityKernel: "wellFormed priorityKernel"
  by (simp add: wellFormed_def sortedByPriority_def priorityKernel_def)

lemma effectivePriority_current [simp]:
  "effectivePriority (k\<lparr>currentThreadControlBlock := t\<rparr>) = effectivePriority k"
  by (rule ext) (simp add: effectivePriority_def)

lemma priorityKernel_simps [simp]:
  "currentThreadControlBlock priorityKernel = 0"
  "tcbList (threadControlBlocks priorityKernel t) = None"
  "tcbState (threadControlBlocks priorityKernel t) = Runnable"
  "effectivePriority priorityKernel 0 = 1"
  "effectivePriority priorityKernel 2 = 2"
  "blockedList (semaphores priorityKernel s) = []"
  "semValue (semaphores priorityKernel s) = 0"
  "maxValue (semaphores priorityKernel s) = - 1"
  by (simp_all add: priorityKernel_def effectivePriority_def getEffectivePriority_def
      runnableThread_def)

lemma blockInternal_tcbState:
  "tcbState (threadControlBlocks (blockInternal c f k) u) =
     (if u = currentThreadControlBlock k then listState c else tcbState (threadControlBlocks k u))"
  by (simp add: blockInternal_def Let_def blockHook_def)

lemma blockInternal_current [simp]:
  "currentThreadControlBlock (blockInternal c f k) = currentThreadControlBlock k"
  by (simp add: blockInternal_def Let_def blockHook_def)

lemma wellFormed_lowThenHighKernel: "wellFormed lowThenHighKernel"
  unfolding lowThenHighKernel_def
  by (simp add: wellFormed_blockInternal wellFormed_priorityKernel blockInternal_tcb)

lemma lowThenHighKernel_simps [simp]:
  "blockedList (semaphores lowThenHighKernel 0) = [2, 0]"
  "semValue (semaphores lowThenHighKernel 0) = 0"
  "maxValue (semaphores lowThenHighKernel 0) = - 1"
  "tcbList (threadControlBlocks lowThenHighKernel 2) = Some (SemaphoreBlockedList 0)"
  "tcbState (threadControlBlocks lowThenHighKernel 0) = BlockedOnSemaphore"
  "effectivePriority lowThenHighKernel 0 = 1"
  "effectivePriority lowThenHighKernel 2 = 2"
  by (simp_all add: lowThenHighKernel_def blockInternal_semaphore blockInternal_tcb
      blockInternal_tcbState)

lemma twoWaitersKernel_simps [simp]:
  "blockedList (semaphores twoWaitersKernel 0) = [0, 2]"
  "semValue (semaphores twoWaitersKernel 0) = 0"
  "maxValue (semaphores twoWaitersKernel 0) = - 1"
  "tcbList (threadControlBlocks twoWaitersKernel 0) = Some (SemaphoreBlockedList 0)"
  "tcbState (threadControlBlocks twoWaitersKernel 2) = BlockedOnSemaphore"
  by (simp_all add: twoWaitersKernel_eq blockInternal_semaphore blockInternal_tcb
      blockInternal_tcbState waiterKernel_def effectivePriority_def getEffectivePriority_def
      runnableThread_def)




subsection \<open>Signals, join and the return codes\<close>

lemma ffsl_zero: "ffsl 0 = 0"
  by (simp add: ffsl_def find_None_iff split: option.split)

lemma ffsl_lowest:
  assumes "x \<noteq> 0"
  shows "\<exists>n. lowestSignal n x \<and> ffsl x = int n + 1"
proof -
  from assms obtain i where i: "bit x i" by (auto simp: bit_eq_iff)
  then have "i < 32" using bit_imp_le_length [of x i] by simp
  with i have "find (bit x) [0..<32] \<noteq> None" by (auto simp: find_None_iff)
  then obtain n where n: "find (bit x) [0..<32] = Some n" by auto
  then obtain j where j: "j < 32" "bit x ([0..<32] ! j)" "n = [0..<32] ! j"
      "\<forall>m<j. \<not> bit x ([0..<32] ! m)"
    by (auto simp: find_Some_iff)
  from j(1,3) have nj: "n = j" by (simp del: upt_Suc)
  have "\<forall>m<n. \<not> bit x m"
  proof (intro allI impI)
    fix m assume "m < n"
    with nj j(1) have "m < j" "[0..<32] ! m = m" by (simp_all del: upt_Suc)
    with j(4) show "\<not> bit x m" by metis
  qed
  with j nj have "lowestSignal n x" by (simp add: lowestSignal_def del: upt_Suc)
  moreover have "ffsl x = int n + 1" using n by (simp add: ffsl_def)
  ultimately show ?thesis by blast
qed

lemma lowestSignal_unique: "lowestSignal n x \<Longrightarrow> lowestSignal m x \<Longrightarrow> n = m"
  by (metis lowestSignal_def nat_neq_iff)

lemma unat_signalNumber: "n < 32 \<Longrightarrow> unat (word_of_int (int n + 1 - 1) :: 8 word) = n"
  by (simp add: unat_of_nat)

lemma waitImplementation_accept_lowest:
  assumes "x \<noteq> 0"
    and "\<forall>n. bit x n \<longrightarrow> bit (pendingSignalSet (threadControlBlocks k (currentThreadControlBlock k))) n"
  shows "\<exists>n. lowestSignal n x \<and>
           waitImplementation_accept x k =
             ((OK, of_nat n),
              updateThreadControlBlock (currentThreadControlBlock k)
                (\<lambda>tcb. tcb\<lparr>pendingSignalSet := unset_bit n (pendingSignalSet tcb)\<rparr>) k)"
proof -
  from assms(1) obtain n where n: "lowestSignal n x" "ffsl x = int n + 1"
    using ffsl_lowest by blast
  then have lt: "n < 32" and b: "bit x n" by (simp_all add: lowestSignal_def)
  from b assms(2) have p: "bit (pendingSignalSet (threadControlBlocks k (currentThreadControlBlock k))) n"
    by blast
  have u: "unat (word_of_int (int n + 1 - 1) :: 8 word) = n" using lt by (rule unat_signalNumber)
  have "waitImplementation_accept x k =
             ((OK, of_nat n),
              updateThreadControlBlock (currentThreadControlBlock k)
                (\<lambda>tcb. tcb\<lparr>pendingSignalSet := unset_bit n (pendingSignalSet tcb)\<rparr>) k)"
    using n(2) lt p u
    by (simp add: waitImplementation_accept_def Let_def acceptPendingSignal_def
        updateThreadControlBlock_def)
  with n(1) show ?thesis by blast
qed

lemma bit_and_pending:
  "\<forall>n. bit (signalSet AND p) n \<longrightarrow> bit (p :: 32 word) n"
  by (simp add: bit_and_iff)

text \<open>
  C9: \<open>ThisThread::Signals::tryWait\<close> returns for every environment, with a result that does
  not depend on it: it never blocks. If no signal of the mask is pending for the current
  thread it returns \<open>EAGAIN\<close> and leaves the kernel state unchanged; otherwise it returns
  status 0 (so not \<open>EAGAIN\<close>) and the lowest-numbered signal \<open>n\<close> of the mask that is
  pending, and clears bit \<open>n\<close> of the pending set, changing nothing else.
\<close>
theorem Signals_tryWait_spec:
  "(signalSet AND pendingSignalSet (threadControlBlocks k (currentThreadControlBlock k)) = 0 \<longrightarrow>
      Signals_tryWait env signalSet k = Some ((Error EAGAIN, 0), k)) \<and>
   (signalSet AND pendingSignalSet (threadControlBlocks k (currentThreadControlBlock k)) \<noteq> 0 \<longrightarrow>
      (\<exists>n. lowestSignal n
              (signalSet AND pendingSignalSet (threadControlBlocks k (currentThreadControlBlock k))) \<and>
           Signals_tryWait env signalSet k =
             Some ((OK, of_nat n),
                   updateThreadControlBlock (currentThreadControlBlock k)
                     (\<lambda>tcb. tcb\<lparr>pendingSignalSet := unset_bit n (pendingSignalSet tcb)\<rparr>) k)))"
proof (intro conjI impI)
  assume "signalSet AND pendingSignalSet (threadControlBlocks k (currentThreadControlBlock k)) = 0"
  then show "Signals_tryWait env signalSet k = Some ((Error EAGAIN, 0), k)"
    by (simp add: Signals_tryWait_def waitImplementation_def Let_def getPendingSignalSet_def)
next
  let ?x = "signalSet AND pendingSignalSet (threadControlBlocks k (currentThreadControlBlock k))"
  assume nz: "?x \<noteq> 0"
  then have w: "Signals_tryWait env signalSet k = Some (waitImplementation_accept ?x k)"
    by (simp add: Signals_tryWait_def waitImplementation_def Let_def getPendingSignalSet_def)
  from waitImplementation_accept_lowest [OF nz bit_and_pending]
  show "\<exists>n. lowestSignal n ?x \<and>
           Signals_tryWait env signalSet k =
             Some ((OK, of_nat n),
                   updateThreadControlBlock (currentThreadControlBlock k)
                     (\<lambda>tcb. tcb\<lparr>pendingSignalSet := unset_bit n (pendingSignalSet tcb)\<rparr>) k)"
    by (simp add: w)
qed

lemma Signals_wait_suspends:
  assumes "signalSet AND pendingSignalSet (threadControlBlocks k (currentThreadControlBlock k)) = 0"
  shows "Signals_wait env signalSet k =
           (case unblockInfo (threadControlBlocks (env (waitImplementation_suspended signalSet k))
                               (currentThreadControlBlock k)) of
              Functor f \<Rightarrow> None
            | Reason Timeout \<Rightarrow>
                Some ((Error ETIMEDOUT, 0),
                      (env (waitImplementation_suspended signalSet k))
                        \<lparr>currentThreadControlBlock := currentThreadControlBlock k\<rparr>)
            | Reason UnblockRequest \<Rightarrow>
                Some (waitImplementation_accept
                        (signalSet AND framePendingSignalSet
                           (waitFrames (env (waitImplementation_suspended signalSet k))
                              (currentThreadControlBlock k)))
                        ((env (waitImplementation_suspended signalSet k))
                           \<lparr>currentThreadControlBlock := currentThreadControlBlock k\<rparr>)))"
  using assms
  by (simp add: Signals_wait_def waitImplementation_def waitImplementation_suspended_def Let_def
      getPendingSignalSet_def block_def
      split: unblockInfo.split UnblockReason.split)

lemma setList_waitFrames:
  "framePendingSignalSet (waitFrames (setList c ts k) u) = framePendingSignalSet (waitFrames k u)"
  by (cases c) auto

lemma unblock_functor:
  assumes "unblockInfo (threadControlBlocks k u) = Functor (Some (SignalsWaitUnblockFunctor u))"
    and "tcbList (threadControlBlocks k u) = Some c"
  shows "framePendingSignalSet (waitFrames (unblock u r k) u) = pendingSignalSet (threadControlBlocks k u) \<and>
         waitingSignalSet (threadControlBlocks (unblock u r k) u) = None \<and>
         pendingSignalSet (threadControlBlocks (unblock u r k) u) = pendingSignalSet (threadControlBlocks k u)"
  using assms
  by (simp add: unblock_def Let_def unblockHook_def SignalsWaitUnblockFunctor_call_def
      getPendingSignalSet_def setWaitingSignalSet_def setList_waitFrames)

text \<open>
  C4: \<open>ThisThread::Signals::wait\<close>. If a signal of the mask is pending at the call, it
  returns for every environment (it does not block) with status 0 and the lowest-numbered
  signal \<open>n\<close> of mask and pending set, and clears exactly bit \<open>n\<close> of the pending set.
  Otherwise the caller is suspended; when it has been unblocked with reason
  \<open>UnblockRequest\<close>, the result is the acceptance of the lowest bit of the mask and the
  snapshot in the caller's frame, and it is status 0 with the lowest-numbered signal of
  mask and snapshot when they meet and those signals are still pending. The snapshot is
  what the unblock functor stored when the thread was unblocked: the pending set of that
  moment, with the pointer to the waited-for set cleared and the pending set untouched.
\<close>
theorem Signals_wait_spec:
  "(signalSet AND pendingSignalSet (threadControlBlocks k (currentThreadControlBlock k)) \<noteq> 0 \<longrightarrow>
      (\<exists>n. lowestSignal n
              (signalSet AND pendingSignalSet (threadControlBlocks k (currentThreadControlBlock k))) \<and>
           Signals_wait env signalSet k =
             Some ((OK, of_nat n),
                   updateThreadControlBlock (currentThreadControlBlock k)
                     (\<lambda>tcb. tcb\<lparr>pendingSignalSet := unset_bit n (pendingSignalSet tcb)\<rparr>) k))) \<and>
   (signalSet AND pendingSignalSet (threadControlBlocks k (currentThreadControlBlock k)) = 0 \<and>
    unblockInfo (threadControlBlocks (env (waitImplementation_suspended signalSet k))
                   (currentThreadControlBlock k)) = Reason UnblockRequest \<and>
    kR = (env (waitImplementation_suspended signalSet k))
           \<lparr>currentThreadControlBlock := currentThreadControlBlock k\<rparr> \<and>
    snapshot = framePendingSignalSet (waitFrames kR (currentThreadControlBlock k)) \<longrightarrow>
      Signals_wait env signalSet k = Some (waitImplementation_accept (signalSet AND snapshot) kR) \<and>
      (signalSet AND snapshot \<noteq> 0 \<and>
       (\<forall>n. bit (signalSet AND snapshot) n \<longrightarrow>
              bit (pendingSignalSet (threadControlBlocks kR (currentThreadControlBlock k))) n) \<longrightarrow>
         (\<exists>n. lowestSignal n (signalSet AND snapshot) \<and>
              Signals_wait env signalSet k =
                Some ((OK, of_nat n),
                      updateThreadControlBlock (currentThreadControlBlock k)
                        (\<lambda>tcb. tcb\<lparr>pendingSignalSet := unset_bit n (pendingSignalSet tcb)\<rparr>) kR)))) \<and>
   (unblockInfo (threadControlBlocks k u) = Functor (Some (SignalsWaitUnblockFunctor u)) \<and>
    tcbList (threadControlBlocks k u) = Some c \<longrightarrow>
      framePendingSignalSet (waitFrames (unblock u r k) u) = pendingSignalSet (threadControlBlocks k u) \<and>
      waitingSignalSet (threadControlBlocks (unblock u r k) u) = None \<and>
      pendingSignalSet (threadControlBlocks (unblock u r k) u) = pendingSignalSet (threadControlBlocks k u))"
proof (intro conjI impI)
  let ?x = "signalSet AND pendingSignalSet (threadControlBlocks k (currentThreadControlBlock k))"
  assume nz: "?x \<noteq> 0"
  then have w: "Signals_wait env signalSet k = Some (waitImplementation_accept ?x k)"
    by (simp add: Signals_wait_def waitImplementation_def Let_def getPendingSignalSet_def)
  from waitImplementation_accept_lowest [OF nz bit_and_pending]
  show "\<exists>n. lowestSignal n ?x \<and>
           Signals_wait env signalSet k =
             Some ((OK, of_nat n),
                   updateThreadControlBlock (currentThreadControlBlock k)
                     (\<lambda>tcb. tcb\<lparr>pendingSignalSet := unset_bit n (pendingSignalSet tcb)\<rparr>) k)"
    by (simp add: w)
next
  assume a: "signalSet AND pendingSignalSet (threadControlBlocks k (currentThreadControlBlock k)) = 0 \<and>
    unblockInfo (threadControlBlocks (env (waitImplementation_suspended signalSet k))
                   (currentThreadControlBlock k)) = Reason UnblockRequest \<and>
    kR = (env (waitImplementation_suspended signalSet k))
           \<lparr>currentThreadControlBlock := currentThreadControlBlock k\<rparr> \<and>
    snapshot = framePendingSignalSet (waitFrames kR (currentThreadControlBlock k))"
  then show w: "Signals_wait env signalSet k = Some (waitImplementation_accept (signalSet AND snapshot) kR)"
    by (simp add: Signals_wait_suspends)
  assume b: "signalSet AND snapshot \<noteq> 0 \<and>
       (\<forall>n. bit (signalSet AND snapshot) n \<longrightarrow>
              bit (pendingSignalSet (threadControlBlocks kR (currentThreadControlBlock k))) n)"
  from a have c: "currentThreadControlBlock kR = currentThreadControlBlock k" by simp
  from b c have "\<exists>n. lowestSignal n (signalSet AND snapshot) \<and>
           waitImplementation_accept (signalSet AND snapshot) kR =
             ((OK, of_nat n),
              updateThreadControlBlock (currentThreadControlBlock kR)
                (\<lambda>tcb. tcb\<lparr>pendingSignalSet := unset_bit n (pendingSignalSet tcb)\<rparr>) kR)"
    by (intro waitImplementation_accept_lowest) simp_all
  then show "\<exists>n. lowestSignal n (signalSet AND snapshot) \<and>
              Signals_wait env signalSet k =
                Some ((OK, of_nat n),
                      updateThreadControlBlock (currentThreadControlBlock k)
                        (\<lambda>tcb. tcb\<lparr>pendingSignalSet := unset_bit n (pendingSignalSet tcb)\<rparr>) kR)"
    by (simp add: w c)
next
  assume a: "unblockInfo (threadControlBlocks k u) = Functor (Some (SignalsWaitUnblockFunctor u)) \<and>
    tcbList (threadControlBlocks k u) = Some c"
  then have *: "framePendingSignalSet (waitFrames (unblock u r k) u) = pendingSignalSet (threadControlBlocks k u) \<and>
         waitingSignalSet (threadControlBlocks (unblock u r k) u) = None \<and>
         pendingSignalSet (threadControlBlocks (unblock u r k) u) = pendingSignalSet (threadControlBlocks k u)"
    by (intro unblock_functor) simp_all
  from * show "framePendingSignalSet (waitFrames (unblock u r k) u) = pendingSignalSet (threadControlBlocks k u)" by simp
  from * show "waitingSignalSet (threadControlBlocks (unblock u r k) u) = None" by simp
  from * show "pendingSignalSet (threadControlBlocks (unblock u r k) u) = pendingSignalSet (threadControlBlocks k u)" by simp
qed

lemma signalKernel_simps [simp]:
  "currentThreadControlBlock signalKernel = 0"
  "pendingSignalSet (threadControlBlocks signalKernel 0) = 12"
  by (simp_all add: signalKernel_def)

lemma lowestSignal_3: "lowestSignal 3 8"
  by (simp add: lowestSignal_def less_Suc_eq numeral_3_eq_3)

lemma lowestSignal_7: "lowestSignal 7 128"
  by (simp add: lowestSignal_def less_Suc_eq eval_nat_numeral)


theorem Signals_tryWait_spec_witness:
  "Signals_tryWait tickHook 3 signalKernel = Some ((Error EAGAIN, 0), signalKernel) \<and>
   Signals_tryWait tickHook 10 signalKernel =
     Some ((OK, 3), updateThreadControlBlock 0 (\<lambda>tcb. tcb\<lparr>pendingSignalSet := 4\<rparr>) signalKernel)"
proof -
  have 1: "Signals_tryWait tickHook 3 signalKernel = Some ((Error EAGAIN, 0), signalKernel)"
    using Signals_tryWait_spec [of 3 signalKernel tickHook] by simp
  obtain n where n: "lowestSignal n 8"
    "Signals_tryWait tickHook 10 signalKernel =
       Some ((OK, of_nat n),
             updateThreadControlBlock 0
               (\<lambda>tcb. tcb\<lparr>pendingSignalSet := unset_bit n (pendingSignalSet tcb)\<rparr>) signalKernel)"
    using Signals_tryWait_spec [of 10 signalKernel tickHook] by auto
  from n(1) have "n = 3" using lowestSignal_3 by (rule lowestSignal_unique)
  with n(2) have 2: "Signals_tryWait tickHook 10 signalKernel =
     Some ((OK, 3), updateThreadControlBlock 0 (\<lambda>tcb. tcb\<lparr>pendingSignalSet := 4\<rparr>) signalKernel)"
    by (simp add: updateThreadControlBlock_def)
  from 1 2 show ?thesis by simp
qed

lemma suspended_boot:
  "waitImplementation_suspended 136 bootKernel =
    bootKernel\<lparr>threadControlBlocks := (threadControlBlocks bootKernel)
       (0 := \<lparr>tcbList = Some (SignalsWaitingList 0),
              unblockInfo = Functor (Some (SignalsWaitUnblockFunctor 0)),
              pendingSignalSet = 0, waitingSignalSet = Some 136, priority = 0,
              boostedPriority = 0, tcbState = WaitingForSignal\<rparr>),
      waitFrames := (waitFrames bootKernel)
       (0 := \<lparr>framePendingSignalSet = 0, frameWaitingList = [0]\<rparr>)\<rparr>"
  by (simp add: waitImplementation_suspended_def Let_def getPendingSignalSet_def blockInternal_def
      blockHook_def setWaitingSignalSet_def updateThreadControlBlock_def updateWaitFrame_def
      runnableThread_def bootKernel_def)

lemma signal5then7_boot:
 "unblockInfo (threadControlBlocks (signal5then7 (waitImplementation_suspended 136 bootKernel)) 0) = Reason UnblockRequest \<and>
  framePendingSignalSet (waitFrames (signal5then7 (waitImplementation_suspended 136 bootKernel)) 0) = 160 \<and>
  pendingSignalSet (threadControlBlocks (signal5then7 (waitImplementation_suspended 136 bootKernel)) 0) = 160"
  by (simp add: signal5then7_def suspended_boot generateSignal_def Let_def updateThreadControlBlock_def
     unblock_def unblockHook_def SignalsWaitUnblockFunctor_call_def updateWaitFrame_def 
     getPendingSignalSet_def setWaitingSignalSet_def)

theorem Signals_wait_spec_witness:
  "Signals_wait tickHook 10 signalKernel =
     Some ((OK, 3), updateThreadControlBlock 0 (\<lambda>tcb. tcb\<lparr>pendingSignalSet := 4\<rparr>) signalKernel) \<and>
   (\<exists>k'. Signals_wait signal5then7 136 bootKernel = Some ((OK, 7), k') \<and>
         pendingSignalSet (threadControlBlocks k' 0) = 32) \<and>
   framePendingSignalSet
     (waitFrames (unblock 0 UnblockRequest (waitImplementation_suspended 136 bootKernel)) 0) = 0 \<and>
   waitingSignalSet
     (threadControlBlocks (unblock 0 UnblockRequest (waitImplementation_suspended 136 bootKernel)) 0) = None"
proof -
  obtain n where n: "lowestSignal n 8"
    "Signals_wait tickHook 10 signalKernel =
       Some ((OK, of_nat n),
             updateThreadControlBlock 0
               (\<lambda>tcb. tcb\<lparr>pendingSignalSet := unset_bit n (pendingSignalSet tcb)\<rparr>) signalKernel)"
    using Signals_wait_spec [of 10 signalKernel tickHook, THEN conjunct1] by auto
  from n(1) have "n = 3" using lowestSignal_3 by (rule lowestSignal_unique)
  with n(2) have 1: "Signals_wait tickHook 10 signalKernel =
     Some ((OK, 3), updateThreadControlBlock 0 (\<lambda>tcb. tcb\<lparr>pendingSignalSet := 4\<rparr>) signalKernel)"
    by (simp add: updateThreadControlBlock_def)
  let ?kR = "(signal5then7 (waitImplementation_suspended 136 bootKernel))\<lparr>currentThreadControlBlock := 0\<rparr>"
  have pre: "136 AND pendingSignalSet (threadControlBlocks bootKernel (currentThreadControlBlock bootKernel)) = 0 \<and>
      unblockInfo (threadControlBlocks (signal5then7 (waitImplementation_suspended 136 bootKernel))
                     (currentThreadControlBlock bootKernel)) = Reason UnblockRequest \<and>
      ?kR = (signal5then7 (waitImplementation_suspended 136 bootKernel))
              \<lparr>currentThreadControlBlock := currentThreadControlBlock bootKernel\<rparr> \<and>
      160 = framePendingSignalSet (waitFrames ?kR (currentThreadControlBlock bootKernel))"
    by (simp add: signal5then7_boot)
  have still: "136 AND 160 \<noteq> (0::32 word) \<and>
      (\<forall>n. bit (136 AND 160 :: 32 word) n \<longrightarrow>
             bit (pendingSignalSet (threadControlBlocks ?kR (currentThreadControlBlock bootKernel))) n)"
    using bit_and_pending [of 136 160] by (simp add: signal5then7_boot)
  from mp [OF Signals_wait_spec [of 136 bootKernel signal5then7 ?kR 160, THEN conjunct2, THEN conjunct1] pre]
    still
  obtain m where m: "lowestSignal m 128"
    "Signals_wait signal5then7 136 bootKernel =
       Some ((OK, of_nat m),
             updateThreadControlBlock 0
               (\<lambda>tcb. tcb\<lparr>pendingSignalSet := unset_bit m (pendingSignalSet tcb)\<rparr>) ?kR)"
    by auto
  from m(1) have "m = 7" using lowestSignal_7 by (rule lowestSignal_unique)
  with m(2) have 2: "\<exists>k'. Signals_wait signal5then7 136 bootKernel = Some ((OK, 7), k') \<and>
         pendingSignalSet (threadControlBlocks k' 0) = 32"
    using signal5then7_boot by simp
  have 3: "framePendingSignalSet
     (waitFrames (unblock 0 UnblockRequest (waitImplementation_suspended 136 bootKernel)) 0) = 0 \<and>
   waitingSignalSet
     (threadControlBlocks (unblock 0 UnblockRequest (waitImplementation_suspended 136 bootKernel)) 0) = None"
    using Signals_wait_spec [where k = "waitImplementation_suspended 136 bootKernel" and u = 0
        and c = "SignalsWaitingList 0" and r = UnblockRequest, THEN conjunct2, THEN conjunct2]
    by (simp add: suspended_boot)
  from 1 2 3 show ?thesis by simp
qed

lemma joinLoop_unlocked:
  "semValue (semaphores k s) \<noteq> 0 \<Longrightarrow> joinLoop env s k = Some (tryWait s k)"
  by (subst joinLoop.simps) (simp add: wait_def tryWait_def tryWaitInternal_def)

text \<open>
  C8: \<open>join\<close> on the thread that is running returns \<open>EDEADLK\<close> for every environment and
  leaves the kernel state unchanged: the caller is not blocked and the value of the join
  semaphore is not consumed.
\<close>
theorem join_self:
  assumes "threadControlBlock tb = currentThreadControlBlock k"
  shows "join env tb k = Some (Error EDEADLK, k)"
  using assms by (simp add: join_def)

theorem join_self_witness:
  "threadControlBlock mainThread = currentThreadControlBlock (terminationHook mainThread bootKernel) \<and>
   semValue (semaphores (terminationHook mainThread bootKernel) (joinSemaphore mainThread)) = 1 \<and>
   join tickHook mainThread (terminationHook mainThread bootKernel)
     = Some (Error EDEADLK, terminationHook mainThread bootKernel)"
proof -
  have 1: "threadControlBlock mainThread = currentThreadControlBlock (terminationHook mainThread bootKernel)"
    by (simp add: mainThread_def terminationHook_def post_def)
  have 2: "semValue (semaphores (terminationHook mainThread bootKernel) (joinSemaphore mainThread)) = 1"
    by (simp add: mainThread_def terminationHook_def post_def)
  from 1 2 join_self [OF 1, of tickHook] show ?thesis by simp
qed

lemma join_other:
  "\<exists>k'. join tickHook otherThread (terminationHook otherThread bootKernel) = Some (OK, k') \<and>
      semValue (semaphores k' (joinSemaphore otherThread)) = 0"
  by (simp add: join_def otherThread_def terminationHook_def post_def joinLoop_unlocked
      tryWait_def tryWaitInternal_def)

lemma listedCode_simps [simp]:
  "listedCode OK" "listedCode (Error EINVAL)" "listedCode (Error EAGAIN)"
  "listedCode (Error ETIMEDOUT)" "listedCode (Error EDEADLK)" "listedCode (Error EPERM)"
  "listedCode (Error EOVERFLOW)" "listedCode (Error EINTR)" "\<not> listedCode (Error EBUSY)"
  by (simp_all add: listedCode_def)

lemma listedCode_unblockReasonError [simp]: "listedCode (unblockReasonError r)"
  by (cases r) simp_all












lemma updateMutex_simps [simp]:
  "threadControlBlocks (updateMutex m f k) = threadControlBlocks k"
  "semaphores (updateMutex m f k) = semaphores k"
  "timers (updateMutex m f k) = timers k"
  "tickCount (updateMutex m f k) = tickCount k"
  "currentThreadControlBlock (updateMutex m f k) = currentThreadControlBlock k"
  "mutexes (updateMutex m f k) = (mutexes k)(m := f (mutexes k m))"
  by (simp_all add: updateMutex_def)

lemma updateFifoQueue_simps [simp]:
  "threadControlBlocks (updateFifoQueue q f k) = threadControlBlocks k"
  "semaphores (updateFifoQueue q f k) = semaphores k"
  "timers (updateFifoQueue q f k) = timers k"
  "tickCount (updateFifoQueue q f k) = tickCount k"
  "currentThreadControlBlock (updateFifoQueue q f k) = currentThreadControlBlock k"
  "fifoQueues (updateFifoQueue q f k) = (fifoQueues k)(q := f (fifoQueues k q))"
  by (simp_all add: updateFifoQueue_def)

lemma fifoQueues_simps [simp]:
  "fifoQueues (updateSemaphore s g k) = fifoQueues k"
  "fifoQueues (updateThreadControlBlock t f k) = fifoQueues k"
  "mutexes (updateSemaphore s g k) = mutexes k"
  "mutexes (updateThreadControlBlock t f k) = mutexes k"
  by (simp_all add: updateSemaphore_def updateThreadControlBlock_def)









lemma lockedMutexKernel_simps [simp]:
  "currentThreadControlBlock lockedMutexKernel = 0"
  "mutexOwner (mutexes lockedMutexKernel 0) = Some 1"
  "tickCount lockedMutexKernel = 0"
  by (simp_all add: lockedMutexKernel_def Mutex_tryLock_def bootKernel_def)

lemma queueKernel_simps [simp]:
  "currentThreadControlBlock queueKernel = 0"
  "fifoQueues queueKernel 0 = \<lparr>popSemaphore = 10, pushSemaphore = 11, storage = []\<rparr>"
  "semaphores queueKernel 10 = Semaphore 0 1"
  "semaphores queueKernel 11 = Semaphore 1 1"
  by (simp_all add: queueKernel_def bootKernel_def updateSemaphore_def)


lemma fullQueueKernel_simps [simp]:
  "fifoQueues fullQueueKernel 0 = \<lparr>popSemaphore = 10, pushSemaphore = 11, storage = [7]\<rparr>"
  "semValue (semaphores fullQueueKernel 10) = 1"
  "semValue (semaphores fullQueueKernel 11) = 0"
  by (simp_all add: fullQueueKernel_def FifoQueue_tryPush_def pushInternal_def FifoQueueBase_push_def
      tryWait_def tryWaitInternal_def post_def)





subsection \<open>Timed waits\<close>

lemma unblock_timers_other:
  "t' \<noteq> t \<Longrightarrow> ((t, d) \<in> set (timers (unblock t' r k))) = ((t, d) \<in> set (timers k))"
  by (auto simp: unblock_timers split: option.split)

lemma unblock_not_blocked: "tcbList (threadControlBlocks k t) = None \<Longrightarrow> unblock t r k = k"
  by (simp add: unblock_def)

lemma expire_not_due:
  assumes "\<forall>(t', dl) \<in> set ts. t' = t \<longrightarrow> dl \<noteq> now"
  shows "threadControlBlocks
           (fold (\<lambda>(t', deadline) k'. if deadline = now then unblock t' Timeout k' else k') ts k) t
           = threadControlBlocks k t \<and>
         ((t, d) \<in> set (timers
           (fold (\<lambda>(t', deadline) k'. if deadline = now then unblock t' Timeout k' else k') ts k)))
           = ((t, d) \<in> set (timers k))"
  using assms
proof (induction ts arbitrary: k)
  case Nil
  then show ?case by simp
next
  case (Cons x ts)
  obtain t' dl where x: "x = (t', dl)" by (cases x)
  from Cons.prems have rest: "\<forall>(t', dl) \<in> set ts. t' = t \<longrightarrow> dl \<noteq> now" by simp
  show ?case
  proof (cases "dl = now")
    case True
    with Cons.prems x have "t' \<noteq> t" by auto
    then show ?thesis
      using Cons.IH [OF rest, of "unblock t' Timeout k"] x True
      by (simp add: unblock_other unblock_timers_other)
  next
    case False
    then show ?thesis using Cons.IH [OF rest, of k] x by simp
  qed
qed

lemma expire_done:
  assumes "unblockInfo (threadControlBlocks k t) = Reason Timeout"
    and "tcbList (threadControlBlocks k t) = None"
  shows "unblockInfo (threadControlBlocks
           (fold (\<lambda>(t', deadline) k'. if deadline = now then unblock t' Timeout k' else k') ts k) t)
           = Reason Timeout"
  using assms
proof (induction ts arbitrary: k)
  case Nil
  then show ?case by simp
next
  case (Cons x ts)
  obtain t' dl where x: "x = (t', dl)" by (cases x)
  show ?case
  proof (cases "dl = now \<and> t' \<noteq> t")
    case True
    then show ?thesis
      using Cons.IH [of "unblock t' Timeout k"] Cons.prems x by (simp add: unblock_other)
  next
    case False
    then have "(if dl = now then unblock t' Timeout k else k) = k"
      using Cons.prems(2) by (auto simp: unblock_not_blocked)
    then show ?thesis using Cons.IH [of k] Cons.prems x by simp
  qed
qed

lemma expire_due:
  assumes "tcbList (threadControlBlocks k t) = Some c"
    and "(t, now) \<in> set ts"
  shows "unblockInfo (threadControlBlocks
           (fold (\<lambda>(t', deadline) k'. if deadline = now then unblock t' Timeout k' else k') ts k) t)
           = Reason Timeout"
  using assms
proof (induction ts arbitrary: k)
  case Nil
  then show ?case by simp
next
  case (Cons x ts)
  obtain t' dl where x: "x = (t', dl)" by (cases x)
  show ?case
  proof (cases "x = (t, now)")
    case True
    have "unblockInfo (threadControlBlocks (unblock t Timeout k) t) = Reason Timeout"
      "tcbList (threadControlBlocks (unblock t Timeout k) t) = None"
      using unblock_self [OF Cons.prems(1), of Timeout] by simp_all
    then show ?thesis using True by (simp add: expire_done)
  next
    case False
    with Cons.prems(2) have mem: "(t, now) \<in> set ts" by simp
    show ?thesis
    proof (cases "dl = now")
      case True
      with False x have "t' \<noteq> t" by simp
      then have "tcbList (threadControlBlocks (unblock t' Timeout k) t) = Some c"
        using Cons.prems(1) by (simp add: unblock_other)
      then show ?thesis using Cons.IH [OF _ mem, of "unblock t' Timeout k"] x True by simp
    next
      case False
      then show ?thesis using Cons.IH [OF Cons.prems(1) mem] x by simp
    qed
  qed
qed

lemma expire_tickCount:
  "tickCount (fold (\<lambda>(t', deadline) k'. if deadline = now then unblock t' Timeout k' else k') ts k)
     = tickCount k"
  by (induction ts arbitrary: k) auto

lemma tickHook_tickCount [simp]: "tickCount (tickHook k) = tickCount k + 1"
  by (simp add: tickHook_def Let_def expire_tickCount)

lemma ticks_tickCount: "tickCount ((tickHook ^^ n) k) = tickCount k + of_nat n"
  by (induction n) simp_all

lemma tickHook_not_due:
  assumes "timedWaiter t c D k" and "tickCount k + 1 \<noteq> D"
  shows "timedWaiter t c D (tickHook k)"
proof -
  let ?k1 = "k\<lparr>tickCount := tickCount k + 1\<rparr>"
  from assms have nd: "\<forall>(t', dl) \<in> set (timers ?k1). t' = t \<longrightarrow> dl \<noteq> tickCount k + 1"
    by (auto simp: timedWaiter_def)
  have "tickHook k = fold (\<lambda>(t', deadline) k'. if deadline = tickCount k + 1 then unblock t' Timeout k' else k')
          (timers ?k1) ?k1"
    by (simp add: tickHook_def Let_def)
  then show ?thesis
    using assms(1) expire_not_due [OF nd, of ?k1] by (simp add: timedWaiter_def)
qed

lemma tickHook_due:
  assumes "timedWaiter t c D k" and "tickCount k + 1 = D"
  shows "unblockInfo (threadControlBlocks (tickHook k) t) = Reason Timeout"
proof -
  let ?k1 = "k\<lparr>tickCount := tickCount k + 1\<rparr>"
  from assms have 1: "tcbList (threadControlBlocks ?k1 t) = Some c"
    and 2: "(t, tickCount k + 1) \<in> set (timers ?k1)"
    by (simp_all add: timedWaiter_def)
  have "tickHook k = fold (\<lambda>(t', deadline) k'. if deadline = tickCount k + 1 then unblock t' Timeout k' else k')
          (timers ?k1) ?k1"
    by (simp add: tickHook_def Let_def)
  then show ?thesis using expire_due [OF 1 2] by simp
qed

lemma of_nat_neq_deadline:
  fixes d :: "64 word"
  assumes "unat d + 1 < 2 ^ 64" and "n \<le> unat d"
  shows "(of_nat n :: 64 word) \<noteq> d + 1"
proof
  assume e: "(of_nat n :: 64 word) = d + 1"
  from assms have "unat (of_nat n :: 64 word) = n" by (simp add: unat_of_nat)
  moreover from assms(1) have "unat (d + 1) = unat d + 1"
    using unat_add_lem [of d 1] by simp
  ultimately show False using e assms(2) by simp
qed

lemma ticks_not_due:
  fixes d :: "64 word"
  assumes w: "timedWaiter t c (tickCount k + d + 1) k"
    and no: "unat d + 1 < 2 ^ 64"
    and n: "n \<le> unat d"
  shows "timedWaiter t c (tickCount k + d + 1) ((tickHook ^^ n) k)"
  using n
proof (induction n)
  case 0
  with w show ?case by simp
next
  case (Suc n)
  then have IH: "timedWaiter t c (tickCount k + d + 1) ((tickHook ^^ n) k)" by simp
  from Suc.prems no have "(of_nat (Suc n) :: 64 word) \<noteq> d + 1" by (intro of_nat_neq_deadline)
  then have "tickCount ((tickHook ^^ n) k) + 1 \<noteq> tickCount k + d + 1"
    by (simp add: ticks_tickCount add.assoc)
  with IH show ?case by (simp add: tickHook_not_due)
qed

lemma ticks_due:
  fixes d :: "64 word"
  assumes w: "timedWaiter t c (tickCount k + d + 1) k"
    and no: "unat d + 1 < 2 ^ 64"
  shows "unblockInfo (threadControlBlocks ((tickHook ^^ (unat d + 1)) k) t) = Reason Timeout"
proof -
  have "timedWaiter t c (tickCount k + d + 1) ((tickHook ^^ unat d) k)"
    using w no by (rule ticks_not_due) simp
  moreover have "tickCount ((tickHook ^^ unat d) k) + 1 = tickCount k + d + 1"
    by (simp add: ticks_tickCount)
  ultimately show ?thesis by (simp add: tickHook_due)
qed

lemma deadline_not_passed:
  fixes now d :: "64 word"
  assumes "unat now + unat d + 1 < 2 ^ 64"
  shows "unat (now + d + 1) = unat now + unat d + 1" and "\<not> now + d + 1 < now"
proof -
  from assms have "unat now + unat d < 2 ^ 64" by simp
  then have 1: "unat (now + d) = unat now + unat d" using unat_add_lem [of now d] by simp
  with assms have "unat (now + d) + unat (1 :: 64 word) < 2 ^ 64" by simp
  then have "unat (now + d + 1) = unat (now + d) + 1" using unat_add_lem [of "now + d" 1] by simp
  with 1 show 2: "unat (now + d + 1) = unat now + unat d + 1" by simp
  then show "\<not> now + d + 1 < now" by (simp add: word_less_nat_alt)
qed

lemma tryWaitFor_locked:
  assumes "semValue (semaphores k s) = 0" and "unat (TickClock_now k) + unat d + 1 < 2 ^ 64"
  shows "tryWaitFor env s d k =
           (case unblockInfo (threadControlBlocks (env (tryWaitFor_suspended s d k))
                               (currentThreadControlBlock k)) of
              Functor f \<Rightarrow> None
            | Reason unblockReason \<Rightarrow>
                Some (unblockReasonError unblockReason,
                      (env (tryWaitFor_suspended s d k))
                        \<lparr>currentThreadControlBlock := currentThreadControlBlock k\<rparr>))"
  using assms(1) deadline_not_passed(2) [OF assms(2)]
  by (simp add: tryWaitFor_def tryWaitUntil_def tryWaitInternal_def blockUntil_def block_def
      Let_def tryWaitFor_suspended_def split: unblockInfo.split)

lemma tryWaitFor_suspended_timedWaiter:
  assumes "currentThreadControlBlock k \<notin> fst ` set (timers k)"
  shows "timedWaiter (currentThreadControlBlock k) (SemaphoreBlockedList s)
           (tickCount (tryWaitFor_suspended s d k) + d + 1) (tryWaitFor_suspended s d k)"
  using assms
  by (auto simp: timedWaiter_def tryWaitFor_suspended_def blockInternal_def Let_def blockHook_def
      TickClock_now_def image_iff)

lemma ticks_semValue: "semValue (semaphores ((tickHook ^^ n) k) s) = semValue (semaphores k s)"
  by (induction n) (simp_all add: tickHook_semaphore)

text \<open>
  C2, as amended: for every duration \<open>d\<close>, \<open>tryWaitFor(d)\<close> is
  \<open>tryWaitUntil(now() + d + 1)\<close>. When \<open>now() + d + 1\<close> does not overflow the 64-bit tick
  counter, on a semaphore whose value is 0 and while nothing but ticks happens, the call
  has not returned after \<open>n\<close> ticks for any \<open>n <= d\<close>, and after \<open>d + 1\<close> ticks it returns
  \<open>ETIMEDOUT\<close> with the clock \<open>d + 1\<close> ticks past the call and the value still 0. The
  caller, being the running thread, has no timed wait enrolled at the call.
\<close>
theorem tryWaitFor_timeout:
  "tryWaitFor env s d k = tryWaitUntil env s (TickClock_now k + d + 1) k \<and>
   (semValue (semaphores k s) = 0 \<and>
    unat (TickClock_now k) + unat d + 1 < 2 ^ 64 \<and>
    currentThreadControlBlock k \<notin> fst ` set (timers k) \<longrightarrow>
      (\<forall>n. n \<le> unat d \<longrightarrow> tryWaitFor (tickHook ^^ n) s d k = None) \<and>
      (\<exists>k'. tryWaitFor (tickHook ^^ (unat d + 1)) s d k = Some (Error ETIMEDOUT, k') \<and>
            unat (TickClock_now k') = unat (TickClock_now k) + (unat d + 1) \<and>
            semValue (semaphores k' s) = 0))"
proof (intro conjI impI allI)
  show "tryWaitFor env s d k = tryWaitUntil env s (TickClock_now k + d + 1) k"
    by (simp add: tryWaitFor_def)
next
  assume a: "semValue (semaphores k s) = 0 \<and>
    unat (TickClock_now k) + unat d + 1 < 2 ^ 64 \<and>
    currentThreadControlBlock k \<notin> fst ` set (timers k)"
  let ?t = "currentThreadControlBlock k"
  let ?k1 = "tryWaitFor_suspended s d k"
  from a have no: "unat d + 1 < 2 ^ 64" by simp
  from a have w: "timedWaiter ?t (SemaphoreBlockedList s) (tickCount ?k1 + d + 1) ?k1"
    by (simp add: tryWaitFor_suspended_timedWaiter)
  have tc: "tickCount ?k1 = tickCount k"
    by (simp add: tryWaitFor_suspended_def blockInternal_def Let_def)
  have sv: "semValue (semaphores ?k1 s) = 0"
    using a by (simp add: tryWaitFor_suspended_def blockInternal_semaphore)
  {
    fix n assume n: "n \<le> unat d"
    have "timedWaiter ?t (SemaphoreBlockedList s) (tickCount ?k1 + d + 1) ((tickHook ^^ n) ?k1)"
      using w no n by (rule ticks_not_due)
    then have "unblockInfo (threadControlBlocks ((tickHook ^^ n) ?k1) ?t) = Functor None"
      by (simp add: timedWaiter_def)
    then show "tryWaitFor (tickHook ^^ n) s d k = None"
      using a by (simp add: tryWaitFor_locked)
  }
  let ?kR = "((tickHook ^^ (unat d + 1)) ?k1)\<lparr>currentThreadControlBlock := ?t\<rparr>"
  have "unblockInfo (threadControlBlocks ((tickHook ^^ (unat d + 1)) ?k1) ?t) = Reason Timeout"
    using w no by (rule ticks_due)
  then have 1: "tryWaitFor (tickHook ^^ (unat d + 1)) s d k = Some (Error ETIMEDOUT, ?kR)"
    using a by (simp add: tryWaitFor_locked)
  have "TickClock_now ?kR = TickClock_now k + d + 1"
    by (simp add: TickClock_now_def ticks_tickCount tc del: funpow.simps)
  then have 2: "unat (TickClock_now ?kR) = unat (TickClock_now k) + (unat d + 1)"
    using a deadline_not_passed(1) [of "TickClock_now k" d] by simp
  have 3: "semValue (semaphores ?kR s) = 0"
    using sv by (simp add: ticks_semValue del: funpow.simps)
  from 1 2 3
  show "\<exists>k'. tryWaitFor (tickHook ^^ (unat d + 1)) s d k = Some (Error ETIMEDOUT, k') \<and>
            unat (TickClock_now k') = unat (TickClock_now k) + (unat d + 1) \<and>
            semValue (semaphores k' s) = 0"
    by blast
qed

text \<open>
  C2 as stated fails where the deadline wraps around: at tick 1 a duration of \<open>2^64 - 2\<close>
  gives the deadline 0, which has passed, and \<open>tryWaitFor\<close> on the locked semaphore returns
  \<open>ETIMEDOUT\<close> at once, with no tick elapsed, while \<open>d + 1\<close> is \<open>2^64 - 1\<close>.
\<close>

theorem tryWaitFor_wraps_counterexample:
  "semValue (semaphores (bootKernel\<lparr>tickCount := 1\<rparr>) 0) = 0 \<and>
   tryWaitFor (tickHook ^^ 0) 0 (- 2) (bootKernel\<lparr>tickCount := 1\<rparr>)
     = Some (Error ETIMEDOUT, bootKernel\<lparr>tickCount := 1\<rparr>) \<and>
   unat (- 2 :: 64 word) + 1 = 18446744073709551615"
  by (simp add: tryWaitFor_def tryWaitUntil_def tryWaitInternal_def blockUntil_def
      TickClock_now_def bootKernel_def Semaphore_def)

theorem tryWaitFor_timeout_witness:
  "semValue (semaphores bootKernel 0) = 0 \<and>
   unat (TickClock_now bootKernel) + unat (10 :: 64 word) + 1 < 2 ^ 64 \<and>
   currentThreadControlBlock bootKernel \<notin> fst ` set (timers bootKernel) \<and>
   tryWaitFor (tickHook ^^ 10) 0 10 bootKernel = None \<and>
   (\<exists>k'. tryWaitFor (tickHook ^^ 11) 0 10 bootKernel = Some (Error ETIMEDOUT, k') \<and>
         unat (TickClock_now k') = 11 \<and> semValue (semaphores k' 0) = 0)"
proof -
  have h: "semValue (semaphores bootKernel 0) = 0 \<and>
    unat (TickClock_now bootKernel) + unat (10 :: 64 word) + 1 < 2 ^ 64 \<and>
    currentThreadControlBlock bootKernel \<notin> fst ` set (timers bootKernel)"
    by (simp add: TickClock_now_def)
  note T = mp [OF tryWaitFor_timeout [of tickHook 0 10 bootKernel, THEN conjunct2] h]
  from T have 1: "tryWaitFor (tickHook ^^ 10) 0 10 bootKernel = None" by simp
  from T have 2: "\<exists>k'. tryWaitFor (tickHook ^^ 11) 0 10 bootKernel = Some (Error ETIMEDOUT, k') \<and>
         unat (TickClock_now k') = 11 \<and> semValue (semaphores k' 0) = 0"
    by (simp add: TickClock_now_def)
  from h 1 2 show ?thesis by simp
qed

end
